theory Spec2Isabelle
  imports Main
begin

text \<open>
  A model of \<^verbatim>\<open>create-hono-app\<close>, which scaffolds a Hono application from an OpenAPI
  document: the parser that normalizes the decoded document into endpoints and schemas,
  the grouping of endpoints by their first tag, the template helpers for names and types,
  and the command that runs parser and generators in order. Exceptions are values
  (\<open>Inl\<close> of a sum, or the second component of an outcome), loops are recursion over
  lists, and the effects of a run on the file system are a list of events.
\<close>

section \<open>JavaScript strings\<close>

text \<open>
  The strings of a document, a path or a message are modelled as \<^typ>\<open>string\<close>. The code
  compares them, concatenates them, and tests their characters against the ASCII classes
  its regular expressions spell out (\<^verbatim>\<open>[a-zA-Z0-9]\<close>, \<^verbatim>\<open>[a-zA-Z0-9-_]\<close>).

  Only the ASCII characters are ever named; what the others are does not matter to it.

  \<^verbatim>\<open>String.prototype.toUpperCase\<close> and \<^verbatim>\<open>toLowerCase\<close> are another matter: they follow the
  Unicode tables of the runtime, reach letters far beyond ASCII, and can change the length
  of a string (the German sharp s upper-cases to \<^verbatim>\<open>SS\<close>). They are not part of the
  repository, so they are a parameter, \<open>rt\<close> below: whatever a theorem states for every
  \<open>rt\<close> holds of the runtime's own mappings. The type of the characters is left open,
  because the case helpers of the templates take a string apart by UTF-16 code unit.
\<close>

record 'u casing =
  toUpperCase :: "'u list \<Rightarrow> 'u list"
  toLowerCase :: "'u list \<Rightarrow> 'u list"

definition lowerLetters :: string where
  "lowerLetters = ''abcdefghijklmnopqrstuvwxyz''"

definition upperLetters :: string where
  "upperLetters = ''ABCDEFGHIJKLMNOPQRSTUVWXYZ''"

definition digitChars :: string where
  "digitChars = ''0123456789''"

text \<open>
  On ASCII text every runtime does the same: \<^verbatim>\<open>a\<close>, ..., \<^verbatim>\<open>z\<close> and \<^verbatim>\<open>A\<close>, ..., \<^verbatim>\<open>Z\<close> are
  exchanged and every other ASCII character is kept. \<open>asciiCasing\<close> is that mapping. The
  examples, whose strings are all ASCII, are run with it; it says nothing about other
  text, and the general statements do not use it.
\<close>

definition asciiUpper :: "char \<Rightarrow> char" where
  "asciiUpper c = (case map_of (zip lowerLetters upperLetters) c of Some u \<Rightarrow> u | None \<Rightarrow> c)"

definition asciiLower :: "char \<Rightarrow> char" where
  "asciiLower c = (case map_of (zip upperLetters lowerLetters) c of Some l \<Rightarrow> l | None \<Rightarrow> c)"

definition asciiCasing :: "char casing" where
  "asciiCasing = \<lparr>toUpperCase = map asciiUpper, toLowerCase = map asciiLower\<rparr>"

text \<open>The character class \<^verbatim>\<open>[a-zA-Z0-9]\<close>.\<close>

definition isAlnum :: "char \<Rightarrow> bool" where
  "isAlnum c = (c \<in> set lowerLetters \<or> c \<in> set upperLetters \<or> c \<in> set digitChars)"

definition endsWith :: "string \<Rightarrow> string \<Rightarrow> bool" where
  "endsWith s suffix =
     (length suffix \<le> length s \<and> drop (length s - length suffix) s = suffix)"

text \<open>Decimal numerals, for the index keys \<^verbatim>\<open>"0"\<close>, \<^verbatim>\<open>"1"\<close>, ... of arrays and strings.\<close>

function showNat :: "nat \<Rightarrow> string" where
  "showNat n = (if n < 10 then [digitChars ! n] else showNat (n div 10) @ [digitChars ! (n mod 10)])"
  by pat_completeness auto
termination
  by (relation "measure id") auto

declare showNat.simps [simp del]

section \<open>Decoded documents\<close>

text \<open>
  The decoder (\<^verbatim>\<open>JSON.parse\<close>, \<^verbatim>\<open>yaml.load\<close>) is an external capability; the code works
  on the tree it returns. \<open>JObj\<close> holds the own properties of an object in the order
  \<^verbatim>\<open>Object.entries\<close> enumerates them, so "document order" below is the order of these
  lists; the keys of one object are distinct. \<open>JUndefined\<close> is what reading a missing
  property gives. Of a number the code only ever observes whether it is truthy and the
  text it becomes as a property key, so \<open>JNum\<close> holds a number by the text
  \<^verbatim>\<open>Number.prototype.toString\<close> gives for it: \<^verbatim>\<open>0\<close> (for both zeros), \<^verbatim>\<open>-7\<close>, \<^verbatim>\<open>1.5\<close>,
  \<^verbatim>\<open>1e+21\<close>, \<^verbatim>\<open>NaN\<close>. Two numbers with the same text are the same number.
\<close>

datatype jsval =
    JUndefined
  | JNull
  | JBool bool
  | JNum string
  | JStr string
  | JArr "jsval list"
  | JObj "(string \<times> jsval) list"

text \<open>The exceptions of a run: \<^verbatim>\<open>new Error(message)\<close> thrown by the source, and the two
  the runtime raises.\<close>

datatype error =
    Error string
  | TypeError
  | ReferenceError string

fun truthy :: "jsval \<Rightarrow> bool" where
  "truthy JUndefined = False"
| "truthy JNull = False"
| "truthy (JBool b) = b"
| "truthy (JNum n) = (n \<noteq> ''0'' \<and> n \<noteq> ''NaN'')"
| "truthy (JStr s) = (s \<noteq> [])"
| "truthy (JArr xs) = True"
| "truthy (JObj fs) = True"

fun nullish :: "jsval \<Rightarrow> bool" where
  "nullish JUndefined = True"
| "nullish JNull = True"
| "nullish v = False"

text \<open>\<^verbatim>\<open>a || b\<close>\<close>

definition orElse :: "jsval \<Rightarrow> jsval \<Rightarrow> jsval" where
  "orElse a b = (if truthy a then a else b)"

text \<open>
  \<^verbatim>\<open>v.k\<close> on a receiver that is not \<^verbatim>\<open>null\<close> or \<^verbatim>\<open>undefined\<close>. The names the code reads
  (\<^verbatim>\<open>paths\<close>, \<^verbatim>\<open>operationId\<close>, \<^verbatim>\<open>tags\<close>, \<^verbatim>\<open>type\<close>, ...) are none of them properties of
  the built-in prototypes, so only the own properties of an object answer.
\<close>

fun propOf :: "jsval \<Rightarrow> string \<Rightarrow> jsval" where
  "propOf (JObj fs) k = (case map_of fs k of Some v \<Rightarrow> v | None \<Rightarrow> JUndefined)"
| "propOf v k = JUndefined"

text \<open>
  \<^verbatim>\<open>k in v\<close>, for the two keys the code tests (\<^verbatim>\<open>"$ref"\<close> and \<^verbatim>\<open>"properties"\<close>): a
  \<^verbatim>\<open>TypeError\<close> on a primitive, never true of an array.
\<close>

fun hasKey :: "string \<Rightarrow> jsval \<Rightarrow> error + bool" where
  "hasKey k (JObj fs) = Inr (k \<in> set (map fst fs))"
| "hasKey k (JArr xs) = Inr False"
| "hasKey k v = Inl TypeError"

text \<open>\<^verbatim>\<open>typeof v === "object"\<close>\<close>

fun typeofObject :: "jsval \<Rightarrow> bool" where
  "typeofObject JNull = True"
| "typeofObject (JArr xs) = True"
| "typeofObject (JObj fs) = True"
| "typeofObject v = False"

text \<open>
  \<^verbatim>\<open>Object.entries(v)\<close>. The code only passes values it has made truthy with
  \<^verbatim>\<open>|| {}\<close> or just tested, so the \<^verbatim>\<open>TypeError\<close> on \<^verbatim>\<open>null\<close> and \<^verbatim>\<open>undefined\<close> cannot
  happen; numbers and booleans have no entries.
\<close>

fun objectEntries :: "jsval \<Rightarrow> (string \<times> jsval) list" where
  "objectEntries (JObj fs) = fs"
| "objectEntries (JArr xs) = zip (map showNat [0..<length xs]) xs"
| "objectEntries (JStr s) = zip (map showNat [0..<length s]) (map (\<lambda>c. JStr [c]) s)"
| "objectEntries v = []"

text \<open>Running a callback over a list until the first exception.\<close>

fun mapE :: "('a \<Rightarrow> error + 'b) \<Rightarrow> 'a list \<Rightarrow> error + 'b list" where
  "mapE f [] = Inr []"
| "mapE f (x # xs) =
     (case f x of
        Inl e \<Rightarrow> Inl e
      | Inr y \<Rightarrow> (case mapE f xs of Inl e \<Rightarrow> Inl e | Inr ys \<Rightarrow> Inr (y # ys)))"

section \<open>Template helpers\<close>

subsection \<open>Case conversion (\<^verbatim>\<open>generators/routes.ts\<close>, \<^verbatim>\<open>generators/schema.ts\<close>)\<close>

text \<open>
  The helpers take their argument apart by position: \<^verbatim>\<open>charAt(0)\<close> is the first UTF-16
  code unit, \<^verbatim>\<open>slice(1)\<close> is what follows it, and the regular expression \<^verbatim>\<open>/[A-Z]/g\<close>
  matches single code units. So here a string is the list of its code units, each a
  number below \<open>2\<^sup>1\<^sup>6\<close>: \<^verbatim>\<open>0x41\<close> to \<^verbatim>\<open>0x5A\<close> are \<^verbatim>\<open>A\<close> to \<^verbatim>\<open>Z\<close>, \<^verbatim>\<open>0x5F\<close> is the
  underscore, and a letter such as \<^verbatim>\<open>U+00C9\<close> (E with acute, upper case) is the unit
  \<^verbatim>\<open>0xC9\<close>.
\<close>

type_synonym codeUnit = nat

text \<open>\<^verbatim>\<open>str.charAt(0).toLowerCase() + str.slice(1)\<close>\<close>

definition camelCase :: "codeUnit casing \<Rightarrow> codeUnit list \<Rightarrow> codeUnit list" where
  "camelCase rt str = toLowerCase rt (take 1 str) @ drop 1 str"

text \<open>\<^verbatim>\<open>str.charAt(0).toUpperCase() + str.slice(1)\<close>\<close>

definition pascalCase :: "codeUnit casing \<Rightarrow> codeUnit list \<Rightarrow> codeUnit list" where
  "pascalCase rt str = toUpperCase rt (take 1 str) @ drop 1 str"

definition capitalize :: "codeUnit casing \<Rightarrow> codeUnit list \<Rightarrow> codeUnit list" where
  "capitalize rt str = toUpperCase rt (take 1 str) @ drop 1 str"

definition lowercase :: "codeUnit casing \<Rightarrow> codeUnit list \<Rightarrow> codeUnit list" where
  "lowercase rt str = toLowerCase rt str"

text \<open>The character class \<^verbatim>\<open>[A-Z]\<close>.\<close>

definition isUpperAZ :: "codeUnit \<Rightarrow> bool" where
  "isUpperAZ u = (0x41 \<le> u \<and> u \<le> 0x5A)"

text \<open>
  \<^verbatim>\<open>str.replace(/[A-Z]/g, (letter) => `_${letter.toLowerCase()}`)\<close>: every match, a
  single code unit, is replaced by an underscore and the lower-casing of the match; what
  does not match is copied.
\<close>

fun snakeCase :: "codeUnit casing \<Rightarrow> codeUnit list \<Rightarrow> codeUnit list" where
  "snakeCase rt [] = []"
| "snakeCase rt (letter # rest) =
     (if isUpperAZ letter then 0x5F # toLowerCase rt [letter] @ snakeCase rt rest
      else letter # snakeCase rt rest)"

text \<open>
  ASCII text as code units, and the case mappings of ASCII text on code units: between
  \<^verbatim>\<open>A\<close>, ..., \<^verbatim>\<open>Z\<close> and \<^verbatim>\<open>a\<close>, ..., \<^verbatim>\<open>z\<close> lie \<^verbatim>\<open>0x20\<close>. As with \<open>asciiCasing\<close>, only the
  examples use them.
\<close>

definition codeUnits :: "string \<Rightarrow> codeUnit list" where
  "codeUnits s = map of_char s"

definition asciiUnits :: "codeUnit casing" where
  "asciiUnits =
     \<lparr>toUpperCase = map (\<lambda>u. if 0x61 \<le> u \<and> u \<le> 0x7A then u - 0x20 else u),
      toLowerCase = map (\<lambda>u. if 0x41 \<le> u \<and> u \<le> 0x5A then u + 0x20 else u)\<rparr>"

subsection \<open>Type mapping\<close>

text \<open>
  The \<^verbatim>\<open>drizzleType\<close> helper: a \<^verbatim>\<open>switch\<close> on \<^verbatim>\<open>property.type\<close>, which compares with
  \<^verbatim>\<open>===\<close>. Reading \<^verbatim>\<open>.type\<close> of \<^verbatim>\<open>null\<close> or \<^verbatim>\<open>undefined\<close> raises.
\<close>

definition drizzleType :: "jsval \<Rightarrow> error + string" where
  \<open>drizzleType property =
     (if nullish property then Inl TypeError
      else if propOf property ''type'' = JStr ''string'' then Inr ''text()''
      else if propOf property ''type'' = JStr ''integer'' then Inr ''integer()''
      else if propOf property ''type'' = JStr ''number'' then Inr ''real()''
      else if propOf property ''type'' = JStr ''boolean'' then Inr ''integer({ mode: "boolean" })''
      else Inr ''text()'')\<close>

text \<open>
  The \<^verbatim>\<open>zodType\<close> helper is an anonymous arrow function registered under the name
  \<^verbatim>\<open>"zodType"\<close>. Its \<^verbatim>\<open>array\<close> case evaluates
  \<^verbatim>\<open>`z.array(${zodType(schema.items)})`\<close>, and \<^verbatim>\<open>zodType\<close> is an identifier that nothing
  in the module declares or imports (the \<^verbatim>\<open>// @ts-ignore\<close> above the line silences the
  compiler). Resolving it at run time raises \<^verbatim>\<open>ReferenceError\<close> before \<^verbatim>\<open>schema.items\<close>
  is looked at.
\<close>

definition zodType :: "jsval \<Rightarrow> error + string" where
  "zodType schema =
     (if \<not> truthy schema then Inr ''z.unknown()''
      else if propOf schema ''type'' = JStr ''string'' then Inr ''z.string()''
      else if propOf schema ''type'' = JStr ''number'' then Inr ''z.number()''
      else if propOf schema ''type'' = JStr ''integer'' then Inr ''z.number().int()''
      else if propOf schema ''type'' = JStr ''boolean'' then Inr ''z.boolean()''
      else if propOf schema ''type'' = JStr ''array'' then Inl (ReferenceError ''zodType'')
      else Inr ''z.unknown()'')"

section \<open>The parser (\<^verbatim>\<open>parsers/openapi.ts\<close>)\<close>

text \<open>
  The interfaces of the parser, field by field. Several interfaces share field names
  (\<^verbatim>\<open>name\<close>, \<^verbatim>\<open>required\<close>, \<^verbatim>\<open>description\<close>, \<^verbatim>\<open>content\<close>), so each record prefixes its own:
  \<open>ep_\<close> for \<^verbatim>\<open>ParsedEndpoint\<close>, \<open>pp_\<close> for \<^verbatim>\<open>ParsedParameter\<close>, \<open>rb_\<close> for
  \<^verbatim>\<open>ParsedRequestBody\<close>, \<open>pr_\<close> for \<^verbatim>\<open>ParsedResponse\<close>, \<open>ps_\<close> for \<^verbatim>\<open>ParsedSchema\<close>,
  \<open>api_\<close> for \<^verbatim>\<open>ParsedOpenAPI\<close>. A field the parser copies from the document without
  looking at it holds the document's value, whatever its shape.
\<close>

record ParsedParameter =
  pp_name :: jsval
  pp_in :: jsval
  pp_required :: jsval
  pp_schema :: jsval

record ParsedRequestBody =
  rb_required :: jsval
  rb_content :: jsval

record ParsedResponse =
  pr_statusCode :: string
  pr_description :: jsval
  pr_content :: jsval

record ParsedEndpoint =
  ep_path :: string
  ep_method :: string
  ep_operationId :: jsval
  ep_summary :: jsval
  ep_description :: jsval
  ep_tags :: jsval
  ep_parameters :: "ParsedParameter list"
  ep_requestBody :: "ParsedRequestBody option"
  ep_responses :: "ParsedResponse list"

record ParsedSchema =
  ps_name :: string
  ps_properties :: jsval
  ps_required :: jsval

record SpecInfo =
  info_title :: jsval
  info_version :: jsval
  info_description :: jsval

record ParsedOpenAPI =
  api_endpoints :: "ParsedEndpoint list"
  api_schemas :: "ParsedSchema list"
  api_info :: SpecInfo

text \<open>\<^verbatim>\<open>`${method}${path.replace(/[^a-zA-Z0-9]/g, "")}`\<close>\<close>

definition generateOperationId :: "string \<Rightarrow> string \<Rightarrow> string" where
  "generateOperationId method path = method @ filter isAlnum path"

text \<open>The callback of \<^verbatim>\<open>parameters.map\<close>.\<close>

definition parseParameter :: "jsval \<Rightarrow> error + ParsedParameter" where
  "parseParameter param =
     (case hasKey ''$ref'' param of
        Inl e \<Rightarrow> Inl e
      | Inr True \<Rightarrow> Inl (Error ''Parameter references not yet supported'')
      | Inr False \<Rightarrow>
          Inr \<lparr>pp_name = propOf param ''name'',
               pp_in = propOf param ''in'',
               pp_required = orElse (propOf param ''required'') (JBool False),
               pp_schema = propOf param ''schema''\<rparr>)"

text \<open>Only an array has \<^verbatim>\<open>.map\<close>; on anything else the call raises \<^verbatim>\<open>TypeError\<close>.\<close>

fun parseParameters :: "jsval \<Rightarrow> error + ParsedParameter list" where
  "parseParameters (JArr params) = mapE parseParameter params"
| "parseParameters v = Inl TypeError"

definition parseRequestBody :: "jsval \<Rightarrow> error + ParsedRequestBody option" where
  "parseRequestBody requestBody =
     (if \<not> truthy requestBody then Inr None
      else case hasKey ''$ref'' requestBody of
        Inl e \<Rightarrow> Inl e
      | Inr True \<Rightarrow> Inr None
      | Inr False \<Rightarrow>
          Inr (Some \<lparr>rb_required = orElse (propOf requestBody ''required'') (JBool False),
                     rb_content = orElse (propOf requestBody ''content'') (JObj [])\<rparr>))"

text \<open>The callback of \<^verbatim>\<open>Object.entries(responses).map\<close>.\<close>

definition parseResponse :: "string \<times> jsval \<Rightarrow> error + ParsedResponse" where
  "parseResponse entry =
     (case entry of (statusCode, response) \<Rightarrow>
        (case hasKey ''$ref'' response of
           Inl e \<Rightarrow> Inl e
         | Inr True \<Rightarrow> Inl (Error ''Response references not yet supported'')
         | Inr False \<Rightarrow>
             Inr \<lparr>pr_statusCode = statusCode,
                  pr_description = propOf response ''description'',
                  pr_content = propOf response ''content''\<rparr>))"

definition parseResponses :: "jsval \<Rightarrow> error + ParsedResponse list" where
  "parseResponses responses = mapE parseResponse (objectEntries responses)"

text \<open>
  The object literal of \<^verbatim>\<open>endpoints.push({...})\<close>. Its members are evaluated in the
  order written, so of several exceptions the one of \<^verbatim>\<open>parseParameters\<close> comes first,
  then \<^verbatim>\<open>parseRequestBody\<close>, then \<^verbatim>\<open>parseResponses\<close>. \<open>method\<close> is the key as the
  document writes it; only the \<^verbatim>\<open>method\<close> member is upper-cased, by the runtime \<open>rt\<close>.
\<close>

definition parseOperation ::
  "char casing \<Rightarrow> string \<Rightarrow> string \<Rightarrow> jsval \<Rightarrow> error + ParsedEndpoint" where
  "parseOperation rt path method operation =
     (case parseParameters (orElse (propOf operation ''parameters'') (JArr [])) of
        Inl e \<Rightarrow> Inl e
      | Inr parameters \<Rightarrow>
     (case parseRequestBody (propOf operation ''requestBody'') of
        Inl e \<Rightarrow> Inl e
      | Inr requestBody \<Rightarrow>
     (case parseResponses (orElse (propOf operation ''responses'') (JObj [])) of
        Inl e \<Rightarrow> Inl e
      | Inr responses \<Rightarrow>
          Inr \<lparr>ep_path = path,
               ep_method = toUpperCase rt method,
               ep_operationId =
                 orElse (propOf operation ''operationId'') (JStr (generateOperationId method path)),
               ep_summary = propOf operation ''summary'',
               ep_description = propOf operation ''description'',
               ep_tags = orElse (propOf operation ''tags'') (JArr [JStr ''default'']),
               ep_parameters = parameters,
               ep_requestBody = requestBody,
               ep_responses = responses\<rparr>)))"

text \<open>
  The inner \<^verbatim>\<open>forEach\<close>: the entries of a path item that get past
  \<^verbatim>\<open>if (method === "parameters" || !operation) return\<close>.
\<close>

definition pathItemOperations :: "jsval \<Rightarrow> (string \<times> jsval) list" where
  "pathItemOperations pathItem =
     filter (\<lambda>(method, operation). \<not> (method = ''parameters'' \<or> \<not> truthy operation))
       (objectEntries pathItem)"

text \<open>
  The outer \<^verbatim>\<open>forEach\<close>, skipping a falsy path item: every (path, method, operation)
  for which the body of the inner loop runs, in the order it runs.
\<close>

definition operationEntries :: "jsval \<Rightarrow> (string \<times> string \<times> jsval) list" where
  "operationEntries paths =
     concat (map (\<lambda>(path, pathItem).
        if \<not> truthy pathItem then []
        else map (\<lambda>(method, operation). (path, method, operation)) (pathItemOperations pathItem))
      (objectEntries paths))"

text \<open>\<^verbatim>\<open>spec.paths\<close> raises on a document that is \<^verbatim>\<open>null\<close> or \<^verbatim>\<open>undefined\<close>.\<close>

definition parseEndpoints :: "char casing \<Rightarrow> jsval \<Rightarrow> error + ParsedEndpoint list" where
  "parseEndpoints rt spec =
     (if nullish spec then Inl TypeError
      else mapE (\<lambda>(path, method, operation). parseOperation rt path method operation)
             (operationEntries (orElse (propOf spec ''paths'') (JObj []))))"

text \<open>
  \<^verbatim>\<open>parseSchemas\<close> runs after \<^verbatim>\<open>parseEndpoints\<close> has returned, so \<open>spec\<close> is not
  \<^verbatim>\<open>null\<close> or \<^verbatim>\<open>undefined\<close> here; \<^verbatim>\<open>spec.components?.schemas\<close> is \<^verbatim>\<open>undefined\<close> when
  \<^verbatim>\<open>components\<close> is nullish. The \<^verbatim>\<open>in\<close> test is only reached for a truthy value of type
  object, where it cannot raise.
\<close>

definition parseSchemas :: "jsval \<Rightarrow> ParsedSchema list" where
  "parseSchemas spec =
     (let components =
            orElse (if nullish (propOf spec ''components'') then JUndefined
                    else propOf (propOf spec ''components'') ''schemas'')
              (JObj [])
      in concat (map (\<lambda>(name, schema).
           if truthy schema \<and> typeofObject schema \<and> hasKey ''properties'' schema = Inr True
           then [\<lparr>ps_name = name,
                   ps_properties = orElse (propOf schema ''properties'') (JObj []),
                   ps_required = orElse (propOf schema ''required'') (JArr [])\<rparr>]
           else [])
         (objectEntries components)))"

text \<open>
  The object \<^verbatim>\<open>parseOpenAPISpec\<close> returns, as a function of the decoded document:
  endpoints first, then schemas, then \<^verbatim>\<open>spec.info.title\<close>, which raises when the
  document has no \<^verbatim>\<open>info\<close>.
\<close>

definition normalize :: "char casing \<Rightarrow> jsval \<Rightarrow> error + ParsedOpenAPI" where
  "normalize rt spec =
     (case parseEndpoints rt spec of
        Inl e \<Rightarrow> Inl e
      | Inr eps \<Rightarrow>
          if nullish (propOf spec ''info'') then Inl TypeError
          else Inr \<lparr>api_endpoints = eps,
                    api_schemas = parseSchemas spec,
                    api_info = \<lparr>info_title = propOf (propOf spec ''info'') ''title'',
                                 info_version = propOf (propOf spec ''info'') ''version'',
                                 info_description = propOf (propOf spec ''info'') ''description''\<rparr>\<rparr>)"

text \<open>\<^verbatim>\<open>"$ref" in v\<close> holds: the value is a cross-reference.\<close>

definition isReference :: "jsval \<Rightarrow> bool" where
  "isReference v = (hasKey ''$ref'' v = Inr True)"

subsection \<open>The operations of a document\<close>

text \<open>
  The operations of a document, as the type the parser is written against
  (\<^verbatim>\<open>OpenAPIV3.PathItemObject\<close>) has them: the members of a path item under the
  eight HTTP method names. The other members of a path item (\<^verbatim>\<open>summary\<close>,
  \<^verbatim>\<open>description\<close>, \<^verbatim>\<open>servers\<close>, \<^verbatim>\<open>parameters\<close>, \<^verbatim>\<open>$ref\<close>) are not operations. This
  definition is the yardstick for the parser's loop, not a translation of it.
\<close>

definition httpMethods :: "string list" where
  "httpMethods = [''get'', ''put'', ''post'', ''delete'', ''options'', ''head'', ''patch'', ''trace'']"

definition documentOperations :: "jsval \<Rightarrow> (string \<times> string \<times> jsval) list" where
  "documentOperations paths =
     concat (map (\<lambda>(path, pathItem).
        map (\<lambda>(method, operation). (path, method, operation))
          (filter (\<lambda>(method, operation). method \<in> set httpMethods) (objectEntries pathItem)))
      (objectEntries paths))"

text \<open>Every path item is an object whose members are operations or \<^verbatim>\<open>parameters\<close>.\<close>

definition onlyOperations :: "jsval \<Rightarrow> bool" where
  "onlyOperations paths =
     list_all (\<lambda>(path, pathItem). truthy pathItem \<and>
        list_all (\<lambda>(method, operation).
            method = ''parameters'' \<or> (method \<in> set httpMethods \<and> truthy operation))
          (objectEntries pathItem))
      (objectEntries paths)"

text \<open>
  An operation the parser can read: its \<^verbatim>\<open>parameters\<close> are absent or an array of
  non-reference objects, its \<^verbatim>\<open>requestBody\<close> is absent or an object, and its responses
  are non-reference objects.
\<close>

definition plainOperation :: "jsval \<Rightarrow> bool" where
  "plainOperation operation =
     ((case orElse (propOf operation ''parameters'') (JArr []) of
         JArr params \<Rightarrow> list_all (\<lambda>param. hasKey ''$ref'' param = Inr False) params
       | other \<Rightarrow> False)
      \<and> (case propOf operation ''requestBody'' of
           JUndefined \<Rightarrow> True | JObj fs \<Rightarrow> True | other \<Rightarrow> False)
      \<and> list_all (\<lambda>(statusCode, response). hasKey ''$ref'' response = Inr False)
           (objectEntries (orElse (propOf operation ''responses'') (JObj []))))"

section \<open>Grouping endpoints by tag\<close>

text \<open>
  \<^verbatim>\<open>getEndpointsByTag\<close>, and word for word the same \<^verbatim>\<open>reduce\<close> at the head of
  \<^verbatim>\<open>generateRoutes\<close> and of \<^verbatim>\<open>generateHandlers\<close>:
  \<^verbatim>\<open>
  endpoints.reduce((acc, endpoint) => {
    const tag = endpoint.tags[0] || "default";
    if (!acc[tag]) acc[tag] = [];
    acc[tag].push(endpoint);
    return acc;
  }, {})
  \<close>
\<close>

text \<open>\<^verbatim>\<open>tags[0]\<close>: the first element of an array, the first character of a string, the
  member \<^verbatim>\<open>"0"\<close> of an object; it raises on \<^verbatim>\<open>null\<close> and \<^verbatim>\<open>undefined\<close>.\<close>

fun index0 :: "jsval \<Rightarrow> error + jsval" where
  "index0 (JArr xs) = Inr (case xs of [] \<Rightarrow> JUndefined | x # rest \<Rightarrow> x)"
| "index0 (JStr s) = Inr (case s of [] \<Rightarrow> JUndefined | c # rest \<Rightarrow> JStr [c])"
| "index0 (JObj fs) = Inr (propOf (JObj fs) ''0'')"
| "index0 JUndefined = Inl TypeError"
| "index0 JNull = Inl TypeError"
| "index0 v = Inr JUndefined"

text \<open>
  A value used as a property key is converted to a string. A string is its own key, a
  number its text, a boolean its name. An object is asked for its \<^verbatim>\<open>toString\<close>: a decoded
  object inherits the one of \<^verbatim>\<open>Object.prototype\<close>, which answers \<^verbatim>\<open>[object Object]\<close>,
  unless the document gave it a member \<^verbatim>\<open>toString\<close> of its own; that member is data, not
  a function, \<^verbatim>\<open>valueOf\<close> (its own or the inherited one) yields no primitive either, and
  the conversion raises \<^verbatim>\<open>TypeError\<close>. An array joins the conversions of its elements
  with commas, \<^verbatim>\<open>null\<close> and \<^verbatim>\<open>undefined\<close> counting as the empty string, and raises where
  an element does.
\<close>

fun jsToString :: "jsval \<Rightarrow> error + string"
  and joinElements :: "jsval list \<Rightarrow> error + string" where
  "jsToString JUndefined = Inr ''undefined''"
| "jsToString JNull = Inr ''null''"
| "jsToString (JBool b) = Inr (if b then ''true'' else ''false'')"
| "jsToString (JNum n) = Inr n"
| "jsToString (JStr s) = Inr s"
| "jsToString (JArr xs) = joinElements xs"
| "jsToString (JObj fs) =
     (if ''toString'' \<in> set (map fst fs) then Inl TypeError else Inr ''[object Object]'')"
| "joinElements [] = Inr []"
| "joinElements (x # xs) =
     (case (if nullish x then Inr [] else jsToString x) of
        Inl e \<Rightarrow> Inl e
      | Inr s \<Rightarrow>
          if xs = [] then Inr s
          else (case joinElements xs of Inl e \<Rightarrow> Inl e | Inr t \<Rightarrow> Inr (s @ '','' @ t)))"

text \<open>\<^verbatim>\<open>const tag = endpoint.tags[0] || "default"\<close>, as the key \<^verbatim>\<open>acc[tag]\<close> uses; the
  conversion is made, and can raise, at the first \<^verbatim>\<open>acc[tag]\<close>.\<close>

definition tagOf :: "ParsedEndpoint \<Rightarrow> error + string" where
  "tagOf endpoint =
     (case index0 (ep_tags endpoint) of
        Inl e \<Rightarrow> Inl e
      | Inr first \<Rightarrow> jsToString (orElse first (JStr ''default'')))"

text \<open>
  The accumulator starts as the object literal \<^verbatim>\<open>{}\<close>, which inherits from
  \<^verbatim>\<open>Object.prototype\<close>. Under each of the keys below \<^verbatim>\<open>acc[tag]\<close> finds an inherited
  member (a function; under \<^verbatim>\<open>__proto__\<close> the prototype object itself) although the
  accumulator has no such group: the value is truthy, so no array is stored, and it has no
  \<^verbatim>\<open>push\<close>, so \<^verbatim>\<open>acc[tag].push(endpoint)\<close> raises \<^verbatim>\<open>TypeError\<close>.
\<close>

definition objectPrototypeKeys :: "string list" where
  "objectPrototypeKeys =
     [''constructor'', ''__defineGetter__'', ''__defineSetter__'', ''hasOwnProperty'',
      ''__lookupGetter__'', ''__lookupSetter__'', ''isPrototypeOf'', ''propertyIsEnumerable'',
      ''toString'', ''valueOf'', ''__proto__'', ''toLocaleString'']"

text \<open>
  One call of the reducer. The accumulator's own members are an association list in
  insertion order: an existing group gets the endpoint pushed at its end, a new group is
  added last.
\<close>

definition groupStep ::
  "(string \<times> ParsedEndpoint list) list \<Rightarrow> ParsedEndpoint
     \<Rightarrow> error + (string \<times> ParsedEndpoint list) list" where
  "groupStep acc endpoint =
     (case tagOf endpoint of
        Inl e \<Rightarrow> Inl e
      | Inr tag \<Rightarrow>
          (case map_of acc tag of
             Some members \<Rightarrow>
               Inr (map (\<lambda>(k, g). if k = tag then (k, g @ [endpoint]) else (k, g)) acc)
           | None \<Rightarrow>
               if tag \<in> set objectPrototypeKeys then Inl TypeError
               else Inr (acc @ [(tag, [endpoint])])))"

fun reduceE :: "('b \<Rightarrow> 'a \<Rightarrow> error + 'b) \<Rightarrow> 'a list \<Rightarrow> 'b \<Rightarrow> error + 'b" where
  "reduceE f [] acc = Inr acc"
| "reduceE f (x # xs) acc = (case f acc x of Inl e \<Rightarrow> Inl e | Inr acc' \<Rightarrow> reduceE f xs acc')"

definition getEndpointsByTag ::
  "ParsedEndpoint list \<Rightarrow> error + (string \<times> ParsedEndpoint list) list" where
  "getEndpointsByTag endpoints = reduceE groupStep endpoints []"

text \<open>
  \<^verbatim>\<open>Object.entries\<close> of the accumulator: the keys that are array indices (canonical
  decimal numerals below \<open>2\<^sup>3\<^sup>2 - 1\<close>) first, in ascending numeric order, then the other
  keys in insertion order.
\<close>

definition digitValue :: "char \<Rightarrow> nat" where
  "digitValue c =
     (case map_of (zip digitChars [0, 1, 2, 3, 4, 5, 6, 7, 8, 9]) c of Some d \<Rightarrow> d | None \<Rightarrow> 0)"

definition natOfDigits :: "string \<Rightarrow> nat" where
  "natOfDigits s = foldl (\<lambda>n c. 10 * n + digitValue c) 0 s"

definition isArrayIndex :: "string \<Rightarrow> bool" where
  "isArrayIndex s =
     (s \<noteq> [] \<and> list_all (\<lambda>c. c \<in> set digitChars) s
      \<and> (length s = 1 \<or> take 1 s \<noteq> ''0'') \<and> natOfDigits s < 4294967295)"

definition entriesInOrder :: "(string \<times> 'a) list \<Rightarrow> (string \<times> 'a) list" where
  "entriesInOrder kvs =
     sort_key (\<lambda>(k, v). natOfDigits k) (filter (\<lambda>(k, v). isArrayIndex k) kvs)
     @ filter (\<lambda>(k, v). \<not> isArrayIndex k) kvs"

text \<open>An endpoint as the parser builds it for \<^verbatim>\<open>GET\<close> on a path, with the given tags.\<close>

definition taggedEndpoint :: "string \<Rightarrow> jsval \<Rightarrow> ParsedEndpoint" where
  "taggedEndpoint path tags =
     \<lparr>ep_path = path, ep_method = ''GET'', ep_operationId = JStr (''get'' @ filter isAlnum path),
      ep_summary = JUndefined, ep_description = JUndefined, ep_tags = tags,
      ep_parameters = [], ep_requestBody = None, ep_responses = []\<rparr>"

section \<open>The generation run (\<^verbatim>\<open>bin/cli.ts\<close> and the generators)\<close>

text \<open>
  The run reads and writes the file system and calls the template engine. What it reads
  is a parameter of the model: the working directory, the directory of the script, which
  paths exist when the run starts, the file reader and the two decoders, the tree of
  templates under \<^verbatim>\<open>templates/app\<close>, the template engine, which maps a template and
  its data to text or raises, and the case mappings of the runtime. What it does is the
  list of its effects, in order; writing itself is taken to succeed.
\<close>

text \<open>An entry of the template tree: a file with its name and text, or a directory with
  its name and entries.\<close>

datatype tnode =
    TFile string string
  | TDir string "tnode list"

text \<open>\<^verbatim>\<open>{...endpoint, pathParams, queryParams}\<close>, what the route and handler templates see of
  an endpoint.\<close>

record EndpointView =
  ev_endpoint :: ParsedEndpoint
  ev_pathParams :: "ParsedParameter list"
  ev_queryParams :: "ParsedParameter list"

text \<open>The templates handed to the engine: the text of a \<^verbatim>\<open>.hbs\<close> file of the tree, and the
  three constants \<^verbatim>\<open>routeTemplate\<close>, \<^verbatim>\<open>handlerTemplate\<close> and \<^verbatim>\<open>schemaTemplate\<close>.\<close>

datatype template =
    FileTemplate string
  | RouteTemplate
  | HandlerTemplate
  | SchemaTemplate

text \<open>
  The data each template is applied to: \<^verbatim>\<open>{name, cors, auth, database, ...parsedSpec}\<close>
  for the tree, \<^verbatim>\<open>{tag, endpoints}\<close> for routes,
  \<^verbatim>\<open>{tag, tableName, hasDatabase, endpoints}\<close> for handlers, \<^verbatim>\<open>{schemas}\<close> for the schema.
\<close>

datatype renderData =
    TemplateData string bool bool "string option" ParsedOpenAPI
  | RoutesData string "EndpointView list"
  | HandlersData string string bool "EndpointView list"
  | SchemaData "ParsedSchema list"

text \<open>The options of the command line, and what a run reads from its surroundings.\<close>

record Options =
  opt_cors :: bool
  opt_auth :: bool
  opt_spec :: "string option"
  opt_database :: "string option"

record env =
  cwd :: string
  dirname :: string
  existsSync :: "string \<Rightarrow> bool"
  readFileSync :: "string \<Rightarrow> error + string"
  yamlLoad :: "string \<Rightarrow> error + jsval"
  jsonParse :: "string \<Rightarrow> error + jsval"
  templateTree :: "tnode list"
  render :: "template \<Rightarrow> renderData \<Rightarrow> error + string"
  runtime :: "char casing"

text \<open>
  The effects of a run. \<open>ParseSpec\<close> marks the call of \<^verbatim>\<open>parseOpenAPISpec\<close>, the
  Normalizer; the other three change the file system.
\<close>

datatype event =
    ParseSpec string
  | EnsureDir string
  | WriteFile string string
  | CopyFile string string

fun isEffect :: "event \<Rightarrow> bool" where
  "isEffect (ParseSpec specPath) = False"
| "isEffect ev = True"

text \<open>What a step did, and the exception that ended it, if any.\<close>

type_synonym outcome = "event list \<times> error option"

text \<open>Sequencing: the second step runs only if the first raised nothing.\<close>

definition andThen :: "outcome \<Rightarrow> outcome \<Rightarrow> outcome" where
  "andThen a b =
     (case a of
        (evs, Some e) \<Rightarrow> (evs, Some e)
      | (evs, None) \<Rightarrow> (case b of (evs', r) \<Rightarrow> (evs @ evs', r)))"

fun forEachE :: "('a \<Rightarrow> outcome) \<Rightarrow> 'a list \<Rightarrow> outcome" where
  "forEachE f [] = ([], None)"
| "forEachE f (x # xs) = andThen (f x) (forEachE f xs)"

text \<open>\<^verbatim>\<open>path.join\<close> and \<^verbatim>\<open>path.resolve\<close> of a directory and a name, without normalisation.\<close>

definition pathJoin :: "string \<Rightarrow> string \<Rightarrow> string" where
  "pathJoin dir name = dir @ ''/'' @ name"

subsection \<open>The parser's entry point\<close>

definition loadOpenAPISpec :: "env \<Rightarrow> string \<Rightarrow> error + jsval" where
  "loadOpenAPISpec env specPath =
     (case readFileSync env specPath of
        Inl e \<Rightarrow> Inl e
      | Inr content \<Rightarrow>
          if endsWith specPath ''.yaml'' \<or> endsWith specPath ''.yml'' then yamlLoad env content
          else jsonParse env content)"

definition parseOpenAPISpec :: "env \<Rightarrow> string \<Rightarrow> error + ParsedOpenAPI" where
  "parseOpenAPISpec env specPath =
     (case loadOpenAPISpec env specPath of Inl e \<Rightarrow> Inl e | Inr spec \<Rightarrow> normalize (runtime env) spec)"

subsection \<open>The generators\<close>

text \<open>The object each endpoint is spread into before rendering.\<close>

definition endpointView :: "ParsedEndpoint \<Rightarrow> EndpointView" where
  "endpointView endpoint =
     \<lparr>ev_endpoint = endpoint,
      ev_pathParams = filter (\<lambda>p. pp_in p = JStr ''path'') (ep_parameters endpoint),
      ev_queryParams = filter (\<lambda>p. pp_in p = JStr ''query'') (ep_parameters endpoint)\<rparr>"

text \<open>The body of the \<^verbatim>\<open>for\<close> loop of \<^verbatim>\<open>generateRoutes\<close>, for one group.\<close>

definition routesFile :: "env \<Rightarrow> string \<Rightarrow> string \<times> ParsedEndpoint list \<Rightarrow> outcome" where
  "routesFile env targetDir entry =
     (case entry of (tag, tagEndpoints) \<Rightarrow>
        andThen ([EnsureDir (pathJoin (pathJoin targetDir ''src'') ''routes'')], None)
          (case render env RouteTemplate (RoutesData tag (map endpointView tagEndpoints)) of
             Inl e \<Rightarrow> ([], Some e)
           | Inr content \<Rightarrow>
               ([WriteFile (pathJoin (pathJoin (pathJoin targetDir ''src'') ''routes'')
                             (toLowerCase (runtime env) tag @ ''.routes.ts'')) content], None)))"

definition generateRoutes :: "env \<Rightarrow> string \<Rightarrow> ParsedEndpoint list \<Rightarrow> outcome" where
  "generateRoutes env targetDir endpoints =
     (case getEndpointsByTag endpoints of
        Inl e \<Rightarrow> ([], Some e)
      | Inr endpointsByTag \<Rightarrow> forEachE (routesFile env targetDir) (entriesInOrder endpointsByTag))"

definition handlersFile :: "env \<Rightarrow> string \<Rightarrow> string \<times> ParsedEndpoint list \<Rightarrow> outcome" where
  "handlersFile env targetDir entry =
     (case entry of (tag, tagEndpoints) \<Rightarrow>
        andThen ([EnsureDir (pathJoin (pathJoin targetDir ''src'') ''routes'')], None)
          (case render env HandlerTemplate
                  (HandlersData tag (toLowerCase (runtime env) tag) True (map endpointView tagEndpoints)) of
             Inl e \<Rightarrow> ([], Some e)
           | Inr content \<Rightarrow>
               ([WriteFile (pathJoin (pathJoin (pathJoin targetDir ''src'') ''routes'')
                             (toLowerCase (runtime env) tag @ ''.handlers.ts'')) content], None)))"

definition generateHandlers :: "env \<Rightarrow> string \<Rightarrow> ParsedEndpoint list \<Rightarrow> outcome" where
  "generateHandlers env targetDir endpoints =
     (case getEndpointsByTag endpoints of
        Inl e \<Rightarrow> ([], Some e)
      | Inr endpointsByTag \<Rightarrow> forEachE (handlersFile env targetDir) (entriesInOrder endpointsByTag))"

text \<open>\<^verbatim>\<open>if (schemas.length === 0) return;\<close> comes before anything else.\<close>

definition schemaPath :: "string \<Rightarrow> string" where
  "schemaPath targetDir = pathJoin (pathJoin (pathJoin targetDir ''src'') ''db'') ''schema.ts''"

definition generateSchema :: "env \<Rightarrow> string \<Rightarrow> ParsedSchema list \<Rightarrow> string option \<Rightarrow> outcome" where
  "generateSchema env targetDir schemas dbTyp =
     (if length schemas = 0 then ([], None)
      else case render env SchemaTemplate (SchemaData schemas) of
        Inl e \<Rightarrow> ([], Some e)
      | Inr content \<Rightarrow> ([WriteFile (schemaPath targetDir) content], None))"

subsection \<open>The command\<close>

definition isWhitespace :: "char \<Rightarrow> bool" where
  "isWhitespace c = (c \<in> set [CHR '' '', CHR 0x09, CHR 0x0A, CHR 0x0B, CHR 0x0C, CHR 0x0D])"

text \<open>The character class \<^verbatim>\<open>[a-zA-Z0-9-_]\<close>.\<close>

definition isAppNameChar :: "char \<Rightarrow> bool" where
  "isAppNameChar c = (isAlnum c \<or> c = CHR ''-'' \<or> c = CHR ''_'')"

definition validateAppName :: "string \<Rightarrow> error option" where
  "validateAppName appName =
     (if appName = [] \<or> list_all isWhitespace appName then Some (Error ''App name cannot be empty'')
      else if \<not> list_all isAppNameChar appName
        then Some (Error ''App name can only contain letters, numbers, hyphens, and underscores'')
      else None)"

text \<open>\<^verbatim>\<open>name.replace(/\.hbs$/, "")\<close>\<close>

definition stripHbs :: "string \<Rightarrow> string" where
  "stripHbs name = (if endsWith name ''.hbs'' then take (length name - 4) name else name)"

text \<open>
  \<^verbatim>\<open>walk(src, dest, templateData)\<close> over the entries \<^verbatim>\<open>readdirSync(src)\<close> lists: a
  directory is created and walked, a \<^verbatim>\<open>.hbs\<close> file is rendered and written, any other
  file is copied.
\<close>

fun walk :: "env \<Rightarrow> renderData \<Rightarrow> string \<Rightarrow> string \<Rightarrow> tnode list \<Rightarrow> outcome"
  and walkEntry :: "env \<Rightarrow> renderData \<Rightarrow> string \<Rightarrow> string \<Rightarrow> tnode \<Rightarrow> outcome" where
  "walk env templateData src dest [] = ([], None)"
| "walk env templateData src dest (entry # entries) =
     andThen (walkEntry env templateData src dest entry) (walk env templateData src dest entries)"
| "walkEntry env templateData src dest (TDir name children) =
     andThen ([EnsureDir (pathJoin dest (stripHbs name))], None)
       (walk env templateData (pathJoin src name) (pathJoin dest (stripHbs name)) children)"
| "walkEntry env templateData src dest (TFile name tpl) =
     (if endsWith name ''.hbs''
      then (case render env (FileTemplate tpl) templateData of
              Inl e \<Rightarrow> ([], Some e)
            | Inr rendered \<Rightarrow> ([WriteFile (pathJoin dest (stripHbs name)) rendered], None))
      else ([CopyFile (pathJoin src name) (pathJoin dest (stripHbs name))], None))"

text \<open>
  What follows \<^verbatim>\<open>ensureDirSync(target)\<close> in the action. \<open>definedEndpoints\<close> is
  \<^verbatim>\<open>templateData.endpoints\<close>: the spread copies the array \<^verbatim>\<open>parseEndpoints\<close> returned,
  and an array, empty or not, is never \<^verbatim>\<open>undefined\<close>; so the branch that throws
  \<^verbatim>\<open>No endpoints found in OpenAPI spec\<close> is there but cannot be taken. \<^verbatim>\<open>if (parsedSpec)\<close>
  tests an object, which is truthy.
\<close>

definition scaffold :: "env \<Rightarrow> string \<Rightarrow> string \<Rightarrow> Options \<Rightarrow> ParsedOpenAPI \<Rightarrow> outcome" where
  "scaffold env appName target opts parsedSpec =
     (let templateData =
            TemplateData appName (opt_cors opts) (opt_auth opts) (opt_database opts) parsedSpec;
          definedEndpoints = Some (api_endpoints parsedSpec)
      in andThen
           (if definedEndpoints \<noteq> None
            then walk env templateData (pathJoin (dirname env) ''../templates/app'') target
                   (templateTree env)
            else ([], Some (Error ''No endpoints found in OpenAPI spec'')))
        (andThen (generateRoutes env target (api_endpoints parsedSpec))
        (andThen (generateHandlers env target (api_endpoints parsedSpec))
                 (generateSchema env target (api_schemas parsedSpec) (opt_database opts)))))"

text \<open>
  The action of the command, from \<^verbatim>\<open>validateAppName\<close> to the end of the \<^verbatim>\<open>try\<close> block.
  The \<^verbatim>\<open>catch\<close> reports the exception and exits with status 1: a run has failed when its
  outcome holds an exception. Without \<^verbatim>\<open>--spec\<close> the action does nothing.
\<close>

definition action :: "env \<Rightarrow> string \<Rightarrow> Options \<Rightarrow> outcome" where
  \<open>action env appName opts =
     (case validateAppName appName of
        Some e \<Rightarrow> ([], Some e)
      | None \<Rightarrow>
          if existsSync env (pathJoin (cwd env) appName)
          then ([], Some (Error (''Folder "'' @ appName @ ''" already exists.'')))
          else (case opt_spec opts of
             None \<Rightarrow> ([], None)
           | Some specPath \<Rightarrow>
               if specPath = [] then ([], None)
               else if \<not> existsSync env specPath
                 then ([], Some (Error (''OpenAPI spec file not found: '' @ specPath)))
               else (case parseOpenAPISpec env specPath of
                  Inl e \<Rightarrow> ([ParseSpec specPath], Some e)
                | Inr parsedSpec \<Rightarrow>
                    andThen ([ParseSpec specPath, EnsureDir (pathJoin (cwd env) appName)], None)
                      (scaffold env appName (pathJoin (cwd env) appName) opts parsedSpec))))\<close>

section \<open>Examples\<close>

subsection \<open>Documents\<close>

text \<open>One operation, \<^verbatim>\<open>get\<close> on \<^verbatim>\<open>/pets/{petId}\<close>, that declares nothing.\<close>

definition petByIdDoc :: jsval where
  "petByIdDoc =
     JObj [(''openapi'', JStr ''3.0.0''),
           (''info'', JObj [(''title'', JStr ''Pets''), (''version'', JStr ''1.0.0'')]),
           (''paths'', JObj [(''/pets/{petId}'', JObj [(''get'', JObj [])])])]"

text \<open>A path item with a path-level \<^verbatim>\<open>summary\<close> and one operation.\<close>

definition summaryDoc :: jsval where
  "summaryDoc =
     JObj [(''openapi'', JStr ''3.0.0''),
           (''info'', JObj [(''title'', JStr ''Pets''), (''version'', JStr ''1.0.0'')]),
           (''paths'', JObj [(''/pets'',
              JObj [(''summary'', JStr ''Pet collection''),
                    (''get'', JObj [(''operationId'', JStr ''listPets'')])])])]"

text \<open>An operation whose only parameter is a reference.\<close>

definition refParameterDoc :: jsval where
  "refParameterDoc =
     JObj [(''openapi'', JStr ''3.0.0''),
           (''info'', JObj [(''title'', JStr ''Pets''), (''version'', JStr ''1.0.0'')]),
           (''paths'', JObj [(''/pets'',
              JObj [(''get'', JObj [(''parameters'',
                 JArr [JObj [(''$ref'', JStr ''#/components/parameters/limit'')]])])])])]"

subsection \<open>Runs\<close>

text \<open>A document that declares no paths.\<close>

definition noPathsDoc :: jsval where
  "noPathsDoc =
     JObj [(''openapi'', JStr ''3.0.0''),
           (''info'', JObj [(''title'', JStr ''Empty''), (''version'', JStr ''1.0.0'')]),
           (''paths'', JObj [])]"

text \<open>
  An environment for the examples: the run starts in \<^verbatim>\<open>/work\<close>, the paths of \<open>existing\<close>
  exist, every file decodes to \<open>doc\<close>, the template tree holds one \<^verbatim>\<open>.hbs\<close> file and a
  directory with one plain file, every rendering succeeds, and the case mappings are
  those of ASCII text.
\<close>

definition exampleEnv :: "string list \<Rightarrow> jsval \<Rightarrow> env" where
  "exampleEnv existing doc =
     \<lparr>cwd = ''/work'', dirname = ''/cli/dist'',
      existsSync = (\<lambda>p. p \<in> set existing),
      readFileSync = (\<lambda>p. Inr ''''),
      yamlLoad = (\<lambda>content. Inl (Error ''not a YAML file'')),
      jsonParse = (\<lambda>content. Inr doc),
      templateTree = [TFile ''package.json.hbs'' ''{{name}}'', TDir ''src'' [TFile ''app.ts'' '''']],
      render = (\<lambda>t d. Inr ''rendered''),
      runtime = asciiCasing\<rparr>"

definition specOptions :: Options where
  "specOptions = \<lparr>opt_cors = False, opt_auth = False, opt_spec = Some ''api.json'',
     opt_database = Some ''sqlite''\<rparr>"

text \<open>One operation, tagged \<^verbatim>\<open>Pets\<close>, and no \<^verbatim>\<open>components\<close>.\<close>

definition listPetsDoc :: jsval where
  "listPetsDoc =
     JObj [(''openapi'', JStr ''3.0.0''),
           (''info'', JObj [(''title'', JStr ''Pets''), (''version'', JStr ''1.0.0'')]),
           (''paths'', JObj [(''/pets'',
              JObj [(''get'', JObj [(''operationId'', JStr ''listPets''),
                                    (''tags'', JArr [JStr ''Pets''])])])])]"





section \<open>Properties of the helpers\<close>

lemma snakeCase_units:
  "snakeCase rt s
     = concat (map (\<lambda>u. if isUpperAZ u then 0x5F # toLowerCase rt [u] else [u]) s)"
  by (induction s) simp_all

lemma snakeCase_no_upper: "list_all (\<lambda>u. \<not> isUpperAZ u) s \<Longrightarrow> snakeCase rt s = s"
  by (induction s) simp_all

text \<open>
  C9, as the code has it. For every string, as a list of code units, and whatever the
  case mappings of the runtime are: \<open>camelCase\<close> replaces the first code unit by its
  lower-casing and keeps the rest, \<open>pascalCase\<close> replaces the first code unit by its
  upper-casing and keeps the rest, and \<open>snakeCase\<close> works unit by unit, replacing each
  of \<^verbatim>\<open>A\<close>, ..., \<^verbatim>\<open>Z\<close> by an underscore and the lower-casing of that letter and keeping
  every other unit, upper-case letters outside \<^verbatim>\<open>A\<close>, ..., \<^verbatim>\<open>Z\<close> included; so a string
  without any of \<^verbatim>\<open>A\<close>, ..., \<^verbatim>\<open>Z\<close> (a snake_case or kebab-case name) comes back
  unchanged.
\<close>

theorem case_helpers:
  "camelCase rt [] = toLowerCase rt [] \<and> camelCase rt (u # us) = toLowerCase rt [u] @ us
   \<and> pascalCase rt [] = toUpperCase rt [] \<and> pascalCase rt (u # us) = toUpperCase rt [u] @ us
   \<and> snakeCase rt s
       = concat (map (\<lambda>u. if 0x41 \<le> u \<and> u \<le> 0x5A then 0x5F # toLowerCase rt [u] else [u]) s)
   \<and> (list_all (\<lambda>u. \<not> (0x41 \<le> u \<and> u \<le> 0x5A)) t \<longrightarrow> snakeCase rt t = t)"
proof -
  have "list_all (\<lambda>u. \<not> (0x41 \<le> u \<and> u \<le> 0x5A)) t \<longrightarrow> snakeCase rt t = t"
    using snakeCase_no_upper [of t rt] by (simp add: isUpperAZ_def)
  moreover have "snakeCase rt s
       = concat (map (\<lambda>u. if 0x41 \<le> u \<and> u \<le> 0x5A then 0x5F # toLowerCase rt [u] else [u]) s)"
    using snakeCase_units [of rt s] by (simp add: isUpperAZ_def)
  ultimately show ?thesis
    by (simp add: camelCase_def pascalCase_def)
qed

lemma codeUnits_pet_store:
  "codeUnits ''pet-store_items''
     = [0x70, 0x65, 0x74, 0x2D, 0x73, 0x74, 0x6F, 0x72, 0x65, 0x5F, 0x69, 0x74, 0x65, 0x6D, 0x73]"
  by (simp add: codeUnits_def)

theorem case_helpers_witness:
  "list_all (\<lambda>u. \<not> (0x41 \<le> u \<and> u \<le> 0x5A)) (codeUnits ''pet-store_items'')
   \<and> snakeCase asciiUnits (codeUnits ''pet-store_items'') = codeUnits ''pet-store_items''
   \<and> snakeCase asciiUnits (codeUnits ''petStoreItem'') = codeUnits ''pet_store_item''
   \<and> camelCase asciiUnits (codeUnits ''ListPets'') = codeUnits ''listPets''
   \<and> pascalCase asciiUnits (codeUnits ''listPets'') = codeUnits ''ListPets''"
proof -
  have h: "list_all (\<lambda>u. \<not> (0x41 \<le> u \<and> u \<le> 0x5A)) (codeUnits ''pet-store_items'')"
    by (simp add: codeUnits_pet_store)
  note inst = case_helpers [of asciiUnits _ _ "codeUnits ''petStoreItem''"
      "codeUnits ''pet-store_items''"]
  from inst h
  have fixed: "snakeCase asciiUnits (codeUnits ''pet-store_items'') = codeUnits ''pet-store_items''"
    by blast
  from inst have "snakeCase asciiUnits (codeUnits ''petStoreItem'')
      = concat (map (\<lambda>u. if 0x41 \<le> u \<and> u \<le> 0x5A then 0x5F # toLowerCase asciiUnits [u] else [u])
          (codeUnits ''petStoreItem''))"
    by blast
  then have snake: "snakeCase asciiUnits (codeUnits ''petStoreItem'') = codeUnits ''pet_store_item''"
    by (simp add: codeUnits_def asciiUnits_def)
  have camel: "camelCase asciiUnits (codeUnits ''ListPets'') = codeUnits ''listPets''"
    by (simp add: camelCase_def codeUnits_def asciiUnits_def)
  have pascal: "pascalCase asciiUnits (codeUnits ''listPets'') = codeUnits ''ListPets''"
    by (simp add: pascalCase_def codeUnits_def asciiUnits_def)
  from h fixed snake camel pascal show ?thesis
    by (simp only: simp_thms)
qed

text \<open>
  C9, as the claim states it, fails: \<open>snakeCase\<close> does not put an underscore before every
  upper-case letter, only before \<^verbatim>\<open>A\<close>, ..., \<^verbatim>\<open>Z\<close>. Take the name that starts with
  \<^verbatim>\<open>U+00C9\<close> (E with acute, an upper-case letter whose lower case is \<^verbatim>\<open>U+00E9\<close>) and goes
  on with \<^verbatim>\<open>coleId\<close>. Its first letter stays as it is, with no underscore before it, while
  \<^verbatim>\<open>I\<close> becomes \<^verbatim>\<open>_i\<close>: the result is not the name with an underscore before each
  upper-case letter and that letter lower-cased. No case mapping is consulted for the
  first letter, so the result is the same under every runtime.
\<close>

theorem snakeCase_keeps_other_capitals:
  "snakeCase asciiUnits (0xC9 # codeUnits ''coleId'') = 0xC9 # codeUnits ''cole_id''
   \<and> snakeCase asciiUnits (0xC9 # codeUnits ''coleId'') \<noteq> 0x5F # 0xE9 # codeUnits ''cole_id''"
  by (simp add: codeUnits_def isUpperAZ_def asciiUnits_def)

text \<open>
  C8. On every property schema (any value but \<^verbatim>\<open>null\<close> and \<^verbatim>\<open>undefined\<close>) the
  storage-type helper answers by the type alone: \<^verbatim>\<open>string\<close> gives a text column,
  \<^verbatim>\<open>integer\<close> an integer column, \<^verbatim>\<open>number\<close> a real column, \<^verbatim>\<open>boolean\<close> a boolean-mode
  integer column, and every other type, or none, a text column. Two schemas of the same
  type get the same column expression.
\<close>

theorem drizzleType_table:
  assumes "\<not> nullish property"
  shows \<open>(propOf property ''type'' = JStr ''string'' \<longrightarrow> drizzleType property = Inr ''text()'')
    \<and> (propOf property ''type'' = JStr ''integer'' \<longrightarrow> drizzleType property = Inr ''integer()'')
    \<and> (propOf property ''type'' = JStr ''number'' \<longrightarrow> drizzleType property = Inr ''real()'')
    \<and> (propOf property ''type'' = JStr ''boolean''
          \<longrightarrow> drizzleType property = Inr ''integer({ mode: "boolean" })'')
    \<and> (propOf property ''type''
            \<notin> {JStr ''string'', JStr ''integer'', JStr ''number'', JStr ''boolean''}
          \<longrightarrow> drizzleType property = Inr ''text()'')
    \<and> (\<forall>other. \<not> nullish other \<and> propOf other ''type'' = propOf property ''type''
          \<longrightarrow> drizzleType other = drizzleType property)\<close>
  using assms by (simp add: drizzleType_def)

theorem drizzleType_table_witness:
  \<open>\<not> nullish (JObj [(''type'', JStr ''boolean'')])
   \<and> drizzleType (JObj [(''type'', JStr ''boolean'')]) = Inr ''integer({ mode: "boolean" })''
   \<and> drizzleType (JObj [(''type'', JStr ''boolean''), (''default'', JBool False)])
       = drizzleType (JObj [(''type'', JStr ''boolean'')])\<close>
proof -
  have h: "\<not> nullish (JObj [(''type'', JStr ''boolean'')])"
    by simp
  note table = drizzleType_table [OF h]
  have column:
    \<open>drizzleType (JObj [(''type'', JStr ''boolean'')]) = Inr ''integer({ mode: "boolean" })''\<close>
    using table by simp
  from table have
    "\<not> nullish (JObj [(''type'', JStr ''boolean''), (''default'', JBool False)])
       \<and> propOf (JObj [(''type'', JStr ''boolean''), (''default'', JBool False)]) ''type''
           = propOf (JObj [(''type'', JStr ''boolean'')]) ''type''
     \<longrightarrow> drizzleType (JObj [(''type'', JStr ''boolean''), (''default'', JBool False)])
           = drizzleType (JObj [(''type'', JStr ''boolean'')])"
    by blast
  then have same:
    "drizzleType (JObj [(''type'', JStr ''boolean''), (''default'', JBool False)])
       = drizzleType (JObj [(''type'', JStr ''boolean'')])"
    by simp
  from h column same show ?thesis
    by (simp only: simp_thms)
qed

lemma zodType_array_raises:
  "truthy schema \<Longrightarrow> propOf schema ''type'' = JStr ''array''
     \<Longrightarrow> zodType schema = Inl (ReferenceError ''zodType'')"
  by (simp add: zodType_def)

text \<open>
  C3. The claim expects \<^verbatim>\<open>z.array(z.string())\<close> for an array of strings. The helper
  raises instead: on the schema \<^verbatim>\<open>{type: "array", items: {type: "string"}}\<close> the call of
  the unbound name \<^verbatim>\<open>zodType\<close> ends the rendering with a \<^verbatim>\<open>ReferenceError\<close>, while the
  item schema alone maps to \<^verbatim>\<open>z.string()\<close>.
\<close>

theorem zodType_array_of_string_raises:
  "zodType (JObj [(''type'', JStr ''array''), (''items'', JObj [(''type'', JStr ''string'')])])
     = Inl (ReferenceError ''zodType'')
   \<and> zodType (JObj [(''type'', JStr ''string'')]) = Inr ''z.string()''"
  by (simp add: zodType_def)

section \<open>Properties of the parser\<close>

lemma mapE_Inr_map: "mapE f xs = Inr ys \<Longrightarrow> map f xs = map Inr ys"
  by (induction xs arbitrary: ys) (auto split: sum.splits)

lemma mapE_Inr_nth:
  assumes "mapE f xs = Inr ys"
  shows "length ys = length xs" and "i < length xs \<Longrightarrow> f (xs ! i) = Inr (ys ! i)"
proof -
  from assms have eq: "map f xs = map Inr ys"
    by (rule mapE_Inr_map)
  then show len: "length ys = length xs"
    by (metis length_map)
  show "i < length xs \<Longrightarrow> f (xs ! i) = Inr (ys ! i)"
  proof -
    assume i: "i < length xs"
    then have "f (xs ! i) = map f xs ! i" by simp
    also have "\<dots> = map Inr ys ! i" by (simp add: eq)
    also have "\<dots> = Inr (ys ! i)" using i len by simp
    finally show ?thesis .
  qed
qed

lemma mapE_Inl: "x \<in> set xs \<Longrightarrow> isl (f x) \<Longrightarrow> isl (mapE f xs)"
  by (induction xs) (auto split: sum.splits)

lemma parseOperation_Inr:
  "parseOperation rt path method operation = Inr e \<Longrightarrow>
     ep_path e = path \<and> ep_method e = toUpperCase rt method
     \<and> ep_operationId e
         = orElse (propOf operation ''operationId'') (JStr (generateOperationId method path))
     \<and> ep_tags e = orElse (propOf operation ''tags'') (JArr [JStr ''default''])"
  by (auto simp: parseOperation_def split: sum.splits)

lemma parseEndpoints_petByIdDoc:
  "parseEndpoints asciiCasing petByIdDoc = Inr
    [\<lparr>ep_path = ''/pets/{petId}'', ep_method = ''GET'', ep_operationId = JStr ''getpetspetId'',
      ep_summary = JUndefined, ep_description = JUndefined, ep_tags = JArr [JStr ''default''],
      ep_parameters = [], ep_requestBody = None, ep_responses = []\<rparr>]"
  by (simp add: petByIdDoc_def parseEndpoints_def operationEntries_def pathItemOperations_def
      orElse_def parseOperation_def parseRequestBody_def parseResponses_def
      generateOperationId_def isAlnum_def asciiCasing_def asciiUpper_def
      lowerLetters_def upperLetters_def digitChars_def)

text \<open>
  C2, as the code has it. For every operation the loop visits whose \<^verbatim>\<open>operationId\<close> is
  absent (or falsy), the endpoint at the same position gets the method key exactly as the
  document writes it, followed by the path without its non-alphanumeric characters. Only
  the endpoint's \<^verbatim>\<open>method\<close> member is upper-cased.
\<close>

theorem generated_operationId:
  assumes "parseEndpoints rt spec = Inr eps"
    and "i < length eps"
    and "operationEntries (orElse (propOf spec ''paths'') (JObj [])) ! i = (path, method, operation)"
    and "\<not> truthy (propOf operation ''operationId'')"
  shows "ep_operationId (eps ! i) = JStr (method @ filter isAlnum path)
    \<and> ep_method (eps ! i) = toUpperCase rt method \<and> ep_path (eps ! i) = path"
proof -
  let ?ops = "operationEntries (orElse (propOf spec ''paths'') (JObj []))"
  let ?f = "\<lambda>(path, method, operation). parseOperation rt path method operation"
  from assms(1) have m: "mapE ?f ?ops = Inr eps"
    by (simp add: parseEndpoints_def split: if_splits)
  from mapE_Inr_nth(1) [OF m] assms(2) have i: "i < length ?ops"
    by simp
  from mapE_Inr_nth(2) [OF m i] assms(3)
  have "parseOperation rt path method operation = Inr (eps ! i)"
    by simp
  from parseOperation_Inr [OF this] assms(4) show ?thesis
    by (simp add: orElse_def generateOperationId_def)
qed

theorem generated_operationId_witness:
  "parseEndpoints asciiCasing petByIdDoc = Inr
    [\<lparr>ep_path = ''/pets/{petId}'', ep_method = ''GET'', ep_operationId = JStr ''getpetspetId'',
      ep_summary = JUndefined, ep_description = JUndefined, ep_tags = JArr [JStr ''default''],
      ep_parameters = [], ep_requestBody = None, ep_responses = []\<rparr>]
   \<and> operationEntries (orElse (propOf petByIdDoc ''paths'') (JObj [])) ! 0
       = (''/pets/{petId}'', ''get'', JObj [])
   \<and> \<not> truthy (propOf (JObj []) ''operationId'')
   \<and> JStr (''get'' @ filter isAlnum ''/pets/{petId}'') = JStr ''getpetspetId''"
proof -
  let ?e = "\<lparr>ep_path = ''/pets/{petId}'', ep_method = ''GET'', ep_operationId = JStr ''getpetspetId'',
      ep_summary = JUndefined, ep_description = JUndefined, ep_tags = JArr [JStr ''default''],
      ep_parameters = [], ep_requestBody = None, ep_responses = []\<rparr>"
  have h1: "parseEndpoints asciiCasing petByIdDoc = Inr [?e]"
    by (rule parseEndpoints_petByIdDoc)
  have h2: "0 < length [?e]"
    by simp
  have h3: "operationEntries (orElse (propOf petByIdDoc ''paths'') (JObj [])) ! 0
       = (''/pets/{petId}'', ''get'', JObj [])"
    by (simp add: petByIdDoc_def operationEntries_def pathItemOperations_def orElse_def)
  have h4: "\<not> truthy (propOf (JObj []) ''operationId'')"
    by simp
  from generated_operationId [OF h1 h2 h3 h4]
  have "JStr (''get'' @ filter isAlnum ''/pets/{petId}'') = JStr ''getpetspetId''"
    by simp
  with h1 h3 h4 show ?thesis
    by (simp only: simp_thms)
qed

text \<open>
  C2, as the claim states it, fails: for \<^verbatim>\<open>get\<close> on \<^verbatim>\<open>/pets/{petId}\<close> with no
  \<^verbatim>\<open>operationId\<close> the normalizer assigns \<^verbatim>\<open>getpetspetId\<close>, while the upper-cased method
  followed by the stripped path is \<^verbatim>\<open>GETpetspetId\<close>.
\<close>

theorem operationId_not_uppercased:
  "map_sum id (\<lambda>ir. map ep_operationId (api_endpoints ir)) (normalize asciiCasing petByIdDoc)
     = Inr [JStr ''getpetspetId'']
   \<and> toUpperCase asciiCasing ''get'' @ filter isAlnum ''/pets/{petId}'' = ''GETpetspetId''"
proof -
  have "\<not> nullish (propOf petByIdDoc ''info'')"
    by (simp add: petByIdDoc_def)
  then have "map_sum id (\<lambda>ir. map ep_operationId (api_endpoints ir)) (normalize asciiCasing petByIdDoc)
     = Inr [JStr ''getpetspetId'']"
    by (simp add: normalize_def parseEndpoints_petByIdDoc)
  moreover have "toUpperCase asciiCasing ''get'' @ filter isAlnum ''/pets/{petId}'' = ''GETpetspetId''"
    by (simp add: isAlnum_def asciiCasing_def asciiUpper_def
        lowerLetters_def upperLetters_def digitChars_def)
  ultimately show ?thesis
    by (simp only: simp_thms)
qed

subsection \<open>References\<close>

lemma parseRequestBody_reference:
  "isReference requestBody \<Longrightarrow> parseRequestBody requestBody = Inr None"
  by (simp add: parseRequestBody_def isReference_def)

lemma parseParameters_reference:
  "param \<in> set params \<Longrightarrow> isReference param \<Longrightarrow> isl (parseParameters (JArr params))"
  by (rule mapE_Inl [where x = param and f = parseParameter, simplified parseParameters.simps [symmetric]])
     (simp_all add: parseParameter_def isReference_def)

lemma parseResponses_reference:
  "(statusCode, response) \<in> set (objectEntries responses) \<Longrightarrow> isReference response
     \<Longrightarrow> isl (parseResponses responses)"
  unfolding parseResponses_def
  by (rule mapE_Inl [where x = "(statusCode, response)"])
     (simp_all add: parseResponse_def isReference_def)

lemma parseOperation_reference:
  assumes "(propOf operation ''parameters'' = JArr params \<and> param \<in> set params \<and> isReference param)
    \<or> ((statusCode, response) \<in> set (objectEntries (orElse (propOf operation ''responses'') (JObj [])))
        \<and> isReference response)"
  shows "isl (parseOperation rt path method operation)"
  using assms
proof
  assume "propOf operation ''parameters'' = JArr params \<and> param \<in> set params \<and> isReference param"
  then have "isl (parseParameters (orElse (propOf operation ''parameters'') (JArr [])))"
    using parseParameters_reference [of param params] by (simp add: orElse_def)
  then show ?thesis
    by (auto simp: parseOperation_def isl_def)
next
  assume "(statusCode, response) \<in> set (objectEntries (orElse (propOf operation ''responses'') (JObj [])))
        \<and> isReference response"
  then have "isl (parseResponses (orElse (propOf operation ''responses'') (JObj [])))"
    using parseResponses_reference by blast
  then show ?thesis
    by (auto simp: parseOperation_def isl_def split: sum.splits)
qed

lemma normalize_isl: "isl (parseEndpoints rt spec) \<Longrightarrow> isl (normalize rt spec)"
  by (auto simp: normalize_def isl_def)

lemma map_of_filter_key:
  "map_of (filter (\<lambda>(k, v). k \<noteq> a) fs) k' = (if k' = a then None else map_of fs k')"
  by (induction fs) auto

lemma parseOperation_requestBody_reference:
  assumes "isReference (propOf (JObj fs) ''requestBody'')"
  shows "parseOperation rt path method (JObj fs)
    = parseOperation rt path method (JObj (filter (\<lambda>(k, v). k \<noteq> ''requestBody'') fs))"
proof -
  let ?without = "JObj (filter (\<lambda>(k, v). k \<noteq> ''requestBody'') fs)"
  have body: "parseRequestBody (propOf (JObj fs) ''requestBody'') = Inr None"
    using assms by (rule parseRequestBody_reference)
  have gone: "parseRequestBody (propOf ?without ''requestBody'') = Inr None"
    by (simp add: map_of_filter_key parseRequestBody_def)
  have keep: "\<And>k. k \<noteq> ''requestBody'' \<Longrightarrow> propOf ?without k = propOf (JObj fs) k"
    by (simp add: map_of_filter_key)
  show ?thesis
    unfolding parseOperation_def
    by (simp add: body gone keep del: propOf.simps cong: sum.case_cong)
qed

lemma parseOperation_body_reference:
  "isReference (propOf operation ''requestBody'') \<Longrightarrow> parseOperation rt path method operation = Inr e
     \<Longrightarrow> ep_requestBody e = None"
  by (auto simp: parseOperation_def parseRequestBody_reference split: sum.splits)

text \<open>The loop visits every operation of the document that has a truthy value.\<close>

lemma operations_are_visited:
  assumes "(path, pathItem) \<in> set (objectEntries paths)" and "truthy pathItem"
    and "(m, operation) \<in> set (objectEntries pathItem)" and "m \<in> set httpMethods"
    and "truthy operation"
  shows "(path, m, operation) \<in> set (operationEntries paths)"
proof -
  let ?visit = "\<lambda>(path, pathItem).
        if \<not> truthy pathItem then []
        else map (\<lambda>(method, operation). (path, method, operation)) (pathItemOperations pathItem)"
  from assms(4) have "m \<noteq> ''parameters''"
    by (auto simp: httpMethods_def)
  with assms(3,5) have "(m, operation) \<in> set (pathItemOperations pathItem)"
    by (simp add: pathItemOperations_def)
  then have "(path, m, operation)
      \<in> set (map (\<lambda>(method, operation). (path, method, operation)) (pathItemOperations pathItem))"
    by force
  with assms(2) have inner: "(path, m, operation) \<in> set (?visit (path, pathItem))"
    by simp
  have "(path, m, operation) \<in> set (concat (map ?visit (objectEntries paths)))"
    unfolding set_concat set_map using assms(1) inner by blast
  then show ?thesis
    by (simp only: operationEntries_def)
qed

text \<open>
  C4. If an operation the parser visits (every operation of the document is one) has a
  parameter that is a reference, or a response that is a reference, then
  \<open>parseEndpoints\<close> raises, and with it the normalization of the whole document. A
  request body that is a reference parses to \<open>None\<close> (\<^verbatim>\<open>undefined\<close>) without
  raising, the operation is parsed exactly as if it had no \<^verbatim>\<open>requestBody\<close> member at
  all, and the endpoint it yields has no request body.
\<close>

theorem reference_handling:
  "((path, method, operation) \<in> set (operationEntries (orElse (propOf spec ''paths'') (JObj [])))
      \<and> ((propOf operation ''parameters'' = JArr params \<and> param \<in> set params \<and> isReference param)
         \<or> ((statusCode, response)
               \<in> set (objectEntries (orElse (propOf operation ''responses'') (JObj [])))
             \<and> isReference response))
      \<longrightarrow> isl (parseEndpoints rt spec) \<and> isl (normalize rt spec))
   \<and> (isReference requestBody \<longrightarrow> parseRequestBody requestBody = Inr None)
   \<and> (isReference (propOf (JObj fs) ''requestBody'')
      \<longrightarrow> parseOperation rt path' method' (JObj fs)
          = parseOperation rt path' method' (JObj (filter (\<lambda>(k, v). k \<noteq> ''requestBody'') fs)))
   \<and> (isReference (propOf operation' ''requestBody'')
        \<and> parseOperation rt path' method' operation' = Inr endpoint
      \<longrightarrow> ep_requestBody endpoint = None)"
proof (intro conjI impI)
  assume a: "(path, method, operation) \<in> set (operationEntries (orElse (propOf spec ''paths'') (JObj [])))
      \<and> ((propOf operation ''parameters'' = JArr params \<and> param \<in> set params \<and> isReference param)
         \<or> ((statusCode, response)
               \<in> set (objectEntries (orElse (propOf operation ''responses'') (JObj [])))
             \<and> isReference response))"
  then have "isl (parseOperation rt path method operation)"
    using parseOperation_reference by blast
  with a have "isl (mapE (\<lambda>(path, method, operation). parseOperation rt path method operation)
      (operationEntries (orElse (propOf spec ''paths'') (JObj []))))"
    by (intro mapE_Inl [where x = "(path, method, operation)"]) simp_all
  then show "isl (parseEndpoints rt spec)"
    by (simp add: parseEndpoints_def)
  then show "isl (normalize rt spec)"
    by (rule normalize_isl)
next
  assume "isReference requestBody"
  then show "parseRequestBody requestBody = Inr None"
    by (rule parseRequestBody_reference)
next
  assume "isReference (propOf (JObj fs) ''requestBody'')"
  then show "parseOperation rt path' method' (JObj fs)
          = parseOperation rt path' method' (JObj (filter (\<lambda>(k, v). k \<noteq> ''requestBody'') fs))"
    by (rule parseOperation_requestBody_reference)
next
  assume "isReference (propOf operation' ''requestBody'')
        \<and> parseOperation rt path' method' operation' = Inr endpoint"
  then show "ep_requestBody endpoint = None"
    using parseOperation_body_reference by blast
qed

lemma refParameterDoc_entries:
  "operationEntries (orElse (propOf refParameterDoc ''paths'') (JObj []))
    = [(''/pets'', ''get'',
        JObj [(''parameters'', JArr [JObj [(''$ref'', JStr ''#/components/parameters/limit'')]])])]"
  by (simp add: refParameterDoc_def operationEntries_def pathItemOperations_def orElse_def)

lemma normalize_refParameterDoc:
  "normalize asciiCasing refParameterDoc = Inl (Error ''Parameter references not yet supported'')"
  by (simp add: normalize_def parseEndpoints_def refParameterDoc_def operationEntries_def
      pathItemOperations_def orElse_def parseOperation_def parseParameter_def)

theorem reference_handling_witness:
  "(''/pets'', ''get'',
      JObj [(''parameters'', JArr [JObj [(''$ref'', JStr ''#/components/parameters/limit'')]])])
     \<in> set (operationEntries (orElse (propOf refParameterDoc ''paths'') (JObj [])))
   \<and> isReference (JObj [(''$ref'', JStr ''#/components/parameters/limit'')])
   \<and> isl (parseEndpoints asciiCasing refParameterDoc) \<and> isl (normalize asciiCasing refParameterDoc)
   \<and> normalize asciiCasing refParameterDoc = Inl (Error ''Parameter references not yet supported'')
   \<and> isReference (JObj [(''$ref'', JStr ''#/components/requestBodies/Pet'')])
   \<and> parseRequestBody (JObj [(''$ref'', JStr ''#/components/requestBodies/Pet'')]) = Inr None
   \<and> parseOperation asciiCasing ''/pets'' ''post''
         (JObj [(''requestBody'', JObj [(''$ref'', JStr ''#/components/requestBodies/Pet'')])])
       = parseOperation asciiCasing ''/pets'' ''post'' (JObj [])
   \<and> parseOperation asciiCasing ''/pets'' ''post'' (JObj []) = Inr
        \<lparr>ep_path = ''/pets'', ep_method = ''POST'', ep_operationId = JStr ''postpets'',
          ep_summary = JUndefined, ep_description = JUndefined, ep_tags = JArr [JStr ''default''],
          ep_parameters = [], ep_requestBody = None, ep_responses = []\<rparr>"
proof -
  let ?param = "JObj [(''$ref'', JStr ''#/components/parameters/limit'')]"
  let ?operation = "JObj [(''parameters'', JArr [?param])]"
  let ?body = "JObj [(''$ref'', JStr ''#/components/requestBodies/Pet'')]"
  have visited: "(''/pets'', ''get'', ?operation)
      \<in> set (operationEntries (orElse (propOf refParameterDoc ''paths'') (JObj [])))"
    by (simp add: refParameterDoc_entries)
  have param: "propOf ?operation ''parameters'' = JArr [?param] \<and> ?param \<in> set [?param]
      \<and> isReference ?param"
    by (simp add: isReference_def)
  have body: "isReference ?body"
    by (simp add: isReference_def)
  have body': "isReference (propOf (JObj [(''requestBody'', ?body)]) ''requestBody'')"
    by (simp add: isReference_def)
  note inst = reference_handling [of "''/pets''" "''get''" ?operation refParameterDoc
      "[?param]" ?param _ _ asciiCasing ?body "[(''requestBody'', ?body)]" "''/pets''" "''post''"]
  from inst visited param have fails: "isl (parseEndpoints asciiCasing refParameterDoc) \<and> isl (normalize asciiCasing refParameterDoc)"
    by blast
  from inst body have none: "parseRequestBody ?body = Inr None"
    by blast
  from inst body' have "parseOperation asciiCasing ''/pets'' ''post'' (JObj [(''requestBody'', ?body)])
       = parseOperation asciiCasing ''/pets'' ''post''
           (JObj (filter (\<lambda>(k, v). k \<noteq> ''requestBody'') [(''requestBody'', ?body)]))"
    by blast
  then have same: "parseOperation asciiCasing ''/pets'' ''post'' (JObj [(''requestBody'', ?body)])
       = parseOperation asciiCasing ''/pets'' ''post'' (JObj [])"
    by simp
  have parsed: "parseOperation asciiCasing ''/pets'' ''post'' (JObj []) = Inr
        \<lparr>ep_path = ''/pets'', ep_method = ''POST'', ep_operationId = JStr ''postpets'',
          ep_summary = JUndefined, ep_description = JUndefined, ep_tags = JArr [JStr ''default''],
          ep_parameters = [], ep_requestBody = None, ep_responses = []\<rparr>"
    by (simp add: parseOperation_def orElse_def parseRequestBody_def parseResponses_def
        generateOperationId_def isAlnum_def asciiCasing_def asciiUpper_def
        lowerLetters_def upperLetters_def digitChars_def)
  from visited param body fails none same normalize_refParameterDoc parsed show ?thesis
    by (simp only: simp_thms)
qed

subsection \<open>One endpoint per visited entry\<close>

lemma endpoints_follow_entries:
  assumes "parseEndpoints rt spec = Inr eps"
  shows "map (\<lambda>e. (ep_path e, ep_method e)) eps
    = map (\<lambda>(path, method, operation). (path, toUpperCase rt method))
        (operationEntries (orElse (propOf spec ''paths'') (JObj [])))"
proof -
  let ?ops = "operationEntries (orElse (propOf spec ''paths'') (JObj []))"
  let ?f = "\<lambda>(path, method, operation). parseOperation rt path method operation"
  from assms have "mapE ?f ?ops = Inr eps"
    by (simp add: parseEndpoints_def split: if_splits)
  then have m: "map ?f ?ops = map Inr eps"
    by (rule mapE_Inr_map)
  have "map ?f ops = map Inr es \<Longrightarrow>
      map (\<lambda>e. (ep_path e, ep_method e)) es
      = map (\<lambda>(path, method, operation). (path, toUpperCase rt method)) ops" for ops es
  proof (induction ops arbitrary: es)
    case Nil
    then show ?case by simp
  next
    case (Cons x ops)
    then obtain e es' where es: "es = e # es'" by auto
    obtain p m operation where x: "x = (p, m, operation)"
      by (cases x) auto
    from Cons.prems es x have "parseOperation rt p m operation = Inr e"
      by simp
    from parseOperation_Inr [OF this] Cons es x show ?case
      by simp
  qed
  from this [OF m] show ?thesis .
qed

lemma filter_only_operations:
  assumes "list_all (\<lambda>(method, operation).
            method = ''parameters'' \<or> (method \<in> set httpMethods \<and> truthy operation)) es"
  shows "filter (\<lambda>(method, operation). \<not> (method = ''parameters'' \<or> \<not> truthy operation)) es
    = filter (\<lambda>(method, operation). method \<in> set httpMethods) es"
  using assms by (induction es) (auto simp: httpMethods_def)

lemma pathItemOperations_only:
  assumes "list_all (\<lambda>(method, operation).
            method = ''parameters'' \<or> (method \<in> set httpMethods \<and> truthy operation))
          (objectEntries pathItem)"
  shows "pathItemOperations pathItem
    = filter (\<lambda>(method, operation). method \<in> set httpMethods) (objectEntries pathItem)"
  unfolding pathItemOperations_def using assms by (rule filter_only_operations)

text \<open>
  Where every member of every path item is an operation or \<^verbatim>\<open>parameters\<close>, the loop
  visits exactly the operations of the document, in document order.
\<close>

lemma operationEntries_only:
  assumes "onlyOperations paths"
  shows "operationEntries paths = documentOperations paths"
proof -
  have "list_all (\<lambda>(path, pathItem). truthy pathItem \<and>
        list_all (\<lambda>(method, operation).
            method = ''parameters'' \<or> (method \<in> set httpMethods \<and> truthy operation))
          (objectEntries pathItem)) es \<Longrightarrow>
    concat (map (\<lambda>(path, pathItem).
        if \<not> truthy pathItem then []
        else map (\<lambda>(method, operation). (path, method, operation)) (pathItemOperations pathItem)) es)
    = concat (map (\<lambda>(path, pathItem).
        map (\<lambda>(method, operation). (path, method, operation))
          (filter (\<lambda>(method, operation). method \<in> set httpMethods) (objectEntries pathItem))) es)" for es
    by (induction es) (auto simp: pathItemOperations_only)
  with assms show ?thesis
    by (simp add: operationEntries_def documentOperations_def onlyOperations_def)
qed

lemma endpoints_of_operations:
  assumes "parseEndpoints rt spec = Inr eps"
    and "onlyOperations (orElse (propOf spec ''paths'') (JObj []))"
  shows "map (\<lambda>e. (ep_path e, ep_method e)) eps
    = map (\<lambda>(path, method, operation). (path, toUpperCase rt method))
        (documentOperations (orElse (propOf spec ''paths'') (JObj [])))"
  using endpoints_follow_entries [OF assms(1)] operationEntries_only [OF assms(2)] by simp

text \<open>The parser returns on every document whose visited entries are plain operations.\<close>

lemma mapE_succeeds:
  "list_all (\<lambda>x. \<exists>y. f x = Inr y) xs \<Longrightarrow> \<exists>ys. mapE f xs = Inr ys"
  by (induction xs) auto

lemma parseParameters_plain:
  "list_all (\<lambda>param. hasKey ''$ref'' param = Inr False) params
     \<Longrightarrow> \<exists>ps. parseParameters (JArr params) = Inr ps"
  by (simp add: parseParameter_def mapE_succeeds list_all_iff)

lemma parseResponses_plain:
  "list_all (\<lambda>(statusCode, response). hasKey ''$ref'' response = Inr False) (objectEntries responses)
     \<Longrightarrow> \<exists>rs. parseResponses responses = Inr rs"
  unfolding parseResponses_def
  by (rule mapE_succeeds) (auto simp: parseResponse_def list_all_iff)

lemma parseRequestBody_plain:
  "(case requestBody of JUndefined \<Rightarrow> True | JObj fs \<Rightarrow> True | other \<Rightarrow> False)
     \<Longrightarrow> \<exists>b. parseRequestBody requestBody = Inr b"
  by (cases requestBody) (auto simp: parseRequestBody_def split: bool.splits)

lemma parseOperation_plain:
  assumes "plainOperation operation"
  shows "\<exists>e. parseOperation rt path method operation = Inr e"
proof -
  from assms obtain params where
    p: "orElse (propOf operation ''parameters'') (JArr []) = JArr params"
    and ps: "list_all (\<lambda>param. hasKey ''$ref'' param = Inr False) params"
    by (auto simp: plainOperation_def split: jsval.splits)
  from parseParameters_plain [OF ps] p obtain parameters where
    "parseParameters (orElse (propOf operation ''parameters'') (JArr [])) = Inr parameters"
    by auto
  moreover from assms obtain b where "parseRequestBody (propOf operation ''requestBody'') = Inr b"
    using parseRequestBody_plain [of "propOf operation ''requestBody''"]
    by (auto simp: plainOperation_def)
  moreover from assms obtain rs where
    "parseResponses (orElse (propOf operation ''responses'') (JObj [])) = Inr rs"
    using parseResponses_plain [of "orElse (propOf operation ''responses'') (JObj [])"]
    by (auto simp: plainOperation_def)
  ultimately show ?thesis
    by (simp add: parseOperation_def)
qed

lemma parseEndpoints_plain:
  assumes "\<not> nullish spec"
    and "list_all (\<lambda>(path, method, operation). plainOperation operation)
           (operationEntries (orElse (propOf spec ''paths'') (JObj [])))"
  shows "\<exists>eps. parseEndpoints rt spec = Inr eps"
proof -
  from assms(2) have "list_all (\<lambda>x. \<exists>y. (\<lambda>(path, method, operation).
       parseOperation rt path method operation) x = Inr y)
     (operationEntries (orElse (propOf spec ''paths'') (JObj [])))"
    by (auto simp: list_all_iff parseOperation_plain)
  from mapE_succeeds [OF this] assms(1) show ?thesis
    by (simp add: parseEndpoints_def)
qed

text \<open>
  C6. The claim expects one descriptor per operation. The loop of \<open>parseEndpoints\<close>
  skips only the \<^verbatim>\<open>parameters\<close> member of a path item; every other truthy member is
  pushed as an endpoint. On \<open>summaryDoc\<close>, whose one path item has a path-level
  \<^verbatim>\<open>summary\<close> and the single operation \<^verbatim>\<open>get\<close>, the document has one operation and no
  references, and the parser returns two descriptors: a spurious \<^verbatim>\<open>SUMMARY /pets\<close> and
  the real \<^verbatim>\<open>GET /pets\<close>.
\<close>

theorem path_summary_becomes_endpoint:
  "documentOperations (propOf summaryDoc ''paths'')
     = [(''/pets'', ''get'', JObj [(''operationId'', JStr ''listPets'')])]
   \<and> map_sum id (map (\<lambda>e. (ep_method e, ep_path e, ep_operationId e))) (parseEndpoints asciiCasing summaryDoc)
     = Inr [(''SUMMARY'', ''/pets'', JStr ''summarypets''), (''GET'', ''/pets'', JStr ''listPets'')]"
  by (simp add: summaryDoc_def documentOperations_def httpMethods_def
     parseEndpoints_def operationEntries_def pathItemOperations_def orElse_def
     parseOperation_def parseRequestBody_def parseResponses_def generateOperationId_def isAlnum_def
     asciiCasing_def asciiUpper_def lowerLetters_def upperLetters_def digitChars_def)

section \<open>Properties of the grouping\<close>








text \<open>It returns whenever every first tag can be read and none names a member of
  \<^verbatim>\<open>Object.prototype\<close>.\<close>

lemma groupStep_succeeds:
  "tagOf e = Inr tag \<Longrightarrow> tag \<notin> set objectPrototypeKeys \<Longrightarrow> \<exists>acc'. groupStep acc e = Inr acc'"
  by (simp add: groupStep_def split: option.splits)

lemma reduceE_succeeds:
  "list_all (\<lambda>e. \<exists>tag. tagOf e = Inr tag \<and> tag \<notin> set objectPrototypeKeys) es
     \<Longrightarrow> \<exists>groups. reduceE groupStep es acc = Inr groups"
proof (induction es arbitrary: acc)
  case Nil
  then show ?case by simp
next
  case (Cons e es)
  then obtain acc' where "groupStep acc e = Inr acc'"
    using groupStep_succeeds by fastforce
  with Cons show ?case by simp
qed

lemma getEndpointsByTag_succeeds:
  "list_all (\<lambda>e. \<exists>tag. tagOf e = Inr tag \<and> tag \<notin> set objectPrototypeKeys) endpoints
     \<Longrightarrow> \<exists>groups. getEndpointsByTag endpoints = Inr groups"
  unfolding getEndpointsByTag_def by (rule reduceE_succeeds)

text \<open>
  C7. The claim speaks of every endpoint list. An endpoint whose first tag is
  \<^verbatim>\<open>constructor\<close> (or any other member of \<^verbatim>\<open>Object.prototype\<close>) is assigned to no group:
  the reducer finds the inherited member under that key, stores no array, and the call of
  its \<^verbatim>\<open>push\<close> raises \<^verbatim>\<open>TypeError\<close>, which ends the grouping of the whole list.
\<close>

theorem constructor_tag_breaks_grouping:
  "getEndpointsByTag
     [taggedEndpoint ''/pets'' (JArr [JStr ''pets'']),
      taggedEndpoint ''/constructors'' (JArr [JStr ''constructor''])] = Inl TypeError"
  by (simp add: getEndpointsByTag_def groupStep_def tagOf_def taggedEndpoint_def orElse_def
      objectPrototypeKeys_def)

section \<open>Properties of the run\<close>

lemma andThen_None [simp]: "andThen (evs, None) b = (evs @ fst b, snd b)"
  by (simp add: andThen_def split: prod.splits)

lemma andThen_Some [simp]: "andThen (evs, Some e) b = (evs, Some e)"
  by (simp add: andThen_def)


lemma target_exists_fails:
  "existsSync env (pathJoin (cwd env) appName)
     \<Longrightarrow> fst (action env appName opts) = [] \<and> snd (action env appName opts) \<noteq> None"
  by (simp add: action_def split: option.splits)

lemma parse_failure_writes_nothing:
  "isl (parseOpenAPISpec env specPath) \<Longrightarrow> opt_spec opts = Some specPath \<Longrightarrow> specPath \<noteq> []
     \<Longrightarrow> filter isEffect (fst (action env appName opts)) = []
       \<and> snd (action env appName opts) \<noteq> None"
  by (auto simp: action_def isl_def split: option.splits)

lemma effect_after_parse:
  assumes "fst (action env appName opts) = before @ ev # after" and "isEffect ev"
  shows "\<exists>specPath parsed. opt_spec opts = Some specPath
    \<and> parseOpenAPISpec env specPath = Inr parsed \<and> ParseSpec specPath \<in> set before"
proof -
  from assms(1) have nonempty: "fst (action env appName opts) \<noteq> []"
    by simp
  then obtain specPath where sp: "opt_spec opts = Some specPath"
    by (auto simp: action_def split: option.splits if_splits)
  show ?thesis
  proof (cases "parseOpenAPISpec env specPath")
    case (Inl e)
    with sp nonempty have "fst (action env appName opts) = [ParseSpec specPath]"
      by (auto simp: action_def split: option.splits if_splits)
    with assms have False
      by (cases before) auto
    then show ?thesis ..
  next
    case (Inr parsed)
    with sp nonempty obtain rest where
      "fst (action env appName opts) = ParseSpec specPath # rest"
      by (auto simp: action_def split: option.splits if_splits)
    with assms have "ParseSpec specPath \<in> set before"
      by (cases before) auto
    with sp Inr show ?thesis by blast
  qed
qed

lemmas run_defs = action_def scaffold_def validateAppName_def isAppNameChar_def isWhitespace_def
  isAlnum_def lowerLetters_def upperLetters_def digitChars_def pathJoin_def
  parseOpenAPISpec_def loadOpenAPISpec_def endsWith_def stripHbs_def
  generateRoutes_def generateHandlers_def generateSchema_def getEndpointsByTag_def
  entriesInOrder_def normalize_def parseEndpoints_def parseSchemas_def operationEntries_def
  pathItemOperations_def orElse_def exampleEnv_def specOptions_def

lemma parse_noPathsDoc:
  "parseOpenAPISpec (exampleEnv [''api.json''] noPathsDoc) ''api.json''
    = Inr \<lparr>api_endpoints = [], api_schemas = [],
            api_info = \<lparr>info_title = JStr ''Empty'', info_version = JStr ''1.0.0'',
                         info_description = JUndefined\<rparr>\<rparr>"
  by (simp add: run_defs noPathsDoc_def)

lemma parse_refParameterDoc:
  "parseOpenAPISpec (exampleEnv [''api.json''] refParameterDoc) ''api.json''
    = Inl (Error ''Parameter references not yet supported'')"
  by (simp add: parseOpenAPISpec_def loadOpenAPISpec_def exampleEnv_def endsWith_def
      normalize_refParameterDoc)

lemma run_listPetsDoc:
  "action (exampleEnv [''api.json''] listPetsDoc) ''shop'' specOptions
     = ([ParseSpec ''api.json'', EnsureDir ''/work/shop'',
         WriteFile ''/work/shop/package.json'' ''rendered'', EnsureDir ''/work/shop/src'',
         CopyFile ''/cli/dist/../templates/app/src/app.ts'' ''/work/shop/src/app.ts'',
         EnsureDir ''/work/shop/src/routes'',
         WriteFile ''/work/shop/src/routes/pets.routes.ts'' ''rendered'',
         EnsureDir ''/work/shop/src/routes'',
         WriteFile ''/work/shop/src/routes/pets.handlers.ts'' ''rendered''], None)"
  by (simp add: run_defs listPetsDoc_def parseOperation_def parseRequestBody_def
      parseResponses_def asciiCasing_def asciiUpper_def groupStep_def tagOf_def
      objectPrototypeKeys_def isArrayIndex_def routesFile_def handlersFile_def
      asciiCasing_def asciiLower_def)

text \<open>
  C1. The claim expects a run over a document without paths to fail before any file is
  written. The action tests \<^verbatim>\<open>templateData.endpoints !== undefined\<close>, which holds of every
  array, the empty one included, so its branch \<^verbatim>\<open>throw new Error("No endpoints found in
  OpenAPI spec")\<close> is never taken. On \<open>noPathsDoc\<close> the IR has no endpoints, and the run
  creates the target directory, renders and copies the template tree, and ends without an
  exception.
\<close>

theorem empty_endpoints_run_succeeds:
  "map_sum id api_endpoints (parseOpenAPISpec (exampleEnv [''api.json''] noPathsDoc) ''api.json'')
     = Inr []
   \<and> action (exampleEnv [''api.json''] noPathsDoc) ''shop'' specOptions
     = ([ParseSpec ''api.json'', EnsureDir ''/work/shop'',
         WriteFile ''/work/shop/package.json'' ''rendered'', EnsureDir ''/work/shop/src'',
         CopyFile ''/cli/dist/../templates/app/src/app.ts'' ''/work/shop/src/app.ts''], None)"
  by (simp add: run_defs noPathsDoc_def)

text \<open>
  C5. A run whose target directory exists fails with no effect at all, so without
  calling the Normalizer. A run whose specification does not normalize (an unsupported
  reference is one way) fails having changed nothing in the file system. And in every
  run, whatever was created, written or copied comes after the call of the Normalizer,
  and that call returned an IR.
\<close>

theorem nothing_written_before_normalization:
  "(existsSync env (pathJoin (cwd env) appName)
      \<longrightarrow> fst (action env appName opts) = [] \<and> snd (action env appName opts) \<noteq> None)
   \<and> (isl (parseOpenAPISpec env specPath) \<and> opt_spec opts = Some specPath \<and> specPath \<noteq> []
      \<longrightarrow> filter isEffect (fst (action env appName opts)) = []
          \<and> snd (action env appName opts) \<noteq> None)
   \<and> (fst (action env appName opts) = before @ ev # after \<and> isEffect ev
      \<longrightarrow> (\<exists>parsedPath parsed. opt_spec opts = Some parsedPath
            \<and> parseOpenAPISpec env parsedPath = Inr parsed \<and> ParseSpec parsedPath \<in> set before))"
  using target_exists_fails [of env appName opts]
    parse_failure_writes_nothing [of env specPath opts appName]
    effect_after_parse [of env appName opts before ev after]
  by blast


theorem nothing_written_before_normalization_witness:
  "existsSync (exampleEnv [''api.json'', ''/work/shop''] listPetsDoc)
     (pathJoin (cwd (exampleEnv [''api.json'', ''/work/shop''] listPetsDoc)) ''shop'')
   \<and> fst (action (exampleEnv [''api.json'', ''/work/shop''] listPetsDoc) ''shop'' specOptions) = []
   \<and> snd (action (exampleEnv [''api.json'', ''/work/shop''] listPetsDoc) ''shop'' specOptions) \<noteq> None
   \<and> parseOpenAPISpec (exampleEnv [''api.json''] refParameterDoc) ''api.json''
       = Inl (Error ''Parameter references not yet supported'')
   \<and> filter isEffect (fst (action (exampleEnv [''api.json''] refParameterDoc) ''shop'' specOptions)) = []
   \<and> snd (action (exampleEnv [''api.json''] refParameterDoc) ''shop'' specOptions) \<noteq> None
   \<and> fst (action (exampleEnv [''api.json''] listPetsDoc) ''shop'' specOptions)
       = [ParseSpec ''api.json''] @ EnsureDir ''/work/shop''
           # [WriteFile ''/work/shop/package.json'' ''rendered'', EnsureDir ''/work/shop/src'',
              CopyFile ''/cli/dist/../templates/app/src/app.ts'' ''/work/shop/src/app.ts'',
              EnsureDir ''/work/shop/src/routes'',
              WriteFile ''/work/shop/src/routes/pets.routes.ts'' ''rendered'',
              EnsureDir ''/work/shop/src/routes'',
              WriteFile ''/work/shop/src/routes/pets.handlers.ts'' ''rendered'']
   \<and> (\<exists>parsed. parseOpenAPISpec (exampleEnv [''api.json''] listPetsDoc) ''api.json'' = Inr parsed)"
proof -
  let ?taken = "exampleEnv [''api.json'', ''/work/shop''] listPetsDoc"
  let ?refs = "exampleEnv [''api.json''] refParameterDoc"
  let ?pets = "exampleEnv [''api.json''] listPetsDoc"
  let ?after = "[WriteFile ''/work/shop/package.json'' ''rendered'', EnsureDir ''/work/shop/src'',
              CopyFile ''/cli/dist/../templates/app/src/app.ts'' ''/work/shop/src/app.ts'',
              EnsureDir ''/work/shop/src/routes'',
              WriteFile ''/work/shop/src/routes/pets.routes.ts'' ''rendered'',
              EnsureDir ''/work/shop/src/routes'',
              WriteFile ''/work/shop/src/routes/pets.handlers.ts'' ''rendered'']"
  have taken: "existsSync ?taken (pathJoin (cwd ?taken) ''shop'')"
    by (simp add: exampleEnv_def pathJoin_def)
  from nothing_written_before_normalization [of ?taken "''shop''" specOptions] taken
  have a: "fst (action ?taken ''shop'' specOptions) = []
      \<and> snd (action ?taken ''shop'' specOptions) \<noteq> None"
    by blast
  have refs: "isl (parseOpenAPISpec ?refs ''api.json'') \<and> opt_spec specOptions = Some ''api.json''
      \<and> ''api.json'' \<noteq> []"
    by (simp add: parse_refParameterDoc specOptions_def)
  from nothing_written_before_normalization [of ?refs "''shop''" specOptions "''api.json''"] refs
  have b: "filter isEffect (fst (action ?refs ''shop'' specOptions)) = []
      \<and> snd (action ?refs ''shop'' specOptions) \<noteq> None"
    by blast
  have trace: "fst (action ?pets ''shop'' specOptions)
      = [ParseSpec ''api.json''] @ EnsureDir ''/work/shop'' # ?after \<and> isEffect (EnsureDir ''/work/shop'')"
    by (simp add: run_listPetsDoc)
  from nothing_written_before_normalization [of ?pets "''shop''" specOptions _
      "[ParseSpec ''api.json'']" "EnsureDir ''/work/shop''" ?after] trace
  have c: "\<exists>parsedPath parsed. opt_spec specOptions = Some parsedPath
      \<and> parseOpenAPISpec ?pets parsedPath = Inr parsed
      \<and> ParseSpec parsedPath \<in> set [ParseSpec ''api.json'']"
    by blast
  then have c': "\<exists>parsed. parseOpenAPISpec ?pets ''api.json'' = Inr parsed"
    by auto
  from taken a parse_refParameterDoc b trace c' show ?thesis
    by (simp only: simp_thms)
qed



























end
